theory Spec2Isabelle
  imports Main "HOL-Library.Word"
begin

unbundle bit_operations_syntax

section \<open>Values of the JavaScript runtime\<close>

text \<open>
  The library under verification is \<^verbatim>\<open>src/index.ts\<close> of \<^verbatim>\<open>simple-sign-url\<close>: the class
  \<^verbatim>\<open>SignUrl\<close> with \<^verbatim>\<open>generateSignature\<close>, \<^verbatim>\<open>sign\<close>, \<^verbatim>\<open>extractUrlData\<close>,
  \<^verbatim>\<open>isValidURLSignature\<close> and \<^verbatim>\<open>verify\<close>.

  Strings are lists of characters. The standard-library functions the class calls
  (\<^verbatim>\<open>toUpperCase\<close>, \<^verbatim>\<open>indexOf\<close>, \<^verbatim>\<open>join\<close>, number formatting, \<^verbatim>\<open>parseInt\<close>,
  \<^verbatim>\<open>Buffer.toString\<close>, \<^verbatim>\<open>URL\<close>, \<^verbatim>\<open>String.replace\<close> with the one regular
  expression of the code) are written out below for ASCII text, where they are exact.
  Numbers are the integers (timestamps in milliseconds and minutes of time to live),
  which JavaScript represents exactly up to \<open>2\<^sup>5\<^sup>3 - 1\<close> in magnitude; \<^verbatim>\<open>NaN\<close>, which
  \<^verbatim>\<open>parseInt\<close> and a date out of range produce here, is \<open>None\<close>.
  The clock (\<^verbatim>\<open>dayjs()\<close>) and the random source (\<^verbatim>\<open>randomBytes(16)\<close>) are read
  once per call; their results are arguments of the functions that read them.
\<close>

type_synonym byte = "8 word"

datatype error =
    NotSupportedAlgorithmError
  | NotProvideKeyError
  | BlackholedSignatureError
  | ExpiredSignatureError
  | MismatchSignatureError
  | TypeError_InvalidURL
  | Error_createHmac

text \<open>
  The first five are the error classes of the library. The last two are thrown by the
  runtime and pass through the library uncaught: the \<^verbatim>\<open>TypeError\<close> of \<^verbatim>\<open>new URL\<close> for a
  text that is no absolute URL, and the \<^verbatim>\<open>Error\<close> of \<^verbatim>\<open>createHmac\<close> for a digest with
  which no HMAC can be set up. The \<^verbatim>\<open>status\<close> field is what each error class of the
  library sets in its constructor; the errors of the runtime have none.
\<close>

fun status :: "error \<Rightarrow> nat option" where
  "status NotSupportedAlgorithmError = Some 400"
| "status NotProvideKeyError = Some 400"
| "status BlackholedSignatureError = Some 403"
| "status ExpiredSignatureError = Some 410"
| "status MismatchSignatureError = Some 403"
| "status TypeError_InvalidURL = None"
| "status Error_createHmac = None"

subsection \<open>String methods\<close>

definition startsWith :: "string \<Rightarrow> string \<Rightarrow> bool" where
  "startsWith s p = (take (length p) s = p)"

text \<open>\<^verbatim>\<open>s.indexOf(t)\<close>: the first position at which \<open>t\<close> occurs in \<open>s\<close>, or \<open>-1\<close>.\<close>

fun indexOf_from :: "int \<Rightarrow> string \<Rightarrow> string \<Rightarrow> int" where
  "indexOf_from i [] t = (if t = [] then i else - 1)"
| "indexOf_from i (c # cs) t =
     (if startsWith (c # cs) t then i else indexOf_from (i + 1) cs t)"

definition indexOf :: "string \<Rightarrow> string \<Rightarrow> int" where
  "indexOf s t = indexOf_from 0 s t"

definition toUpperCase_char :: "char \<Rightarrow> char" where
  "toUpperCase_char c =
     (case map_of (zip ''abcdefghijklmnopqrstuvwxyz'' ''ABCDEFGHIJKLMNOPQRSTUVWXYZ'') c of
        Some u \<Rightarrow> u
      | None \<Rightarrow> c)"

definition toUpperCase :: "string \<Rightarrow> string" where
  "toUpperCase s = map toUpperCase_char s"

text \<open>\<^verbatim>\<open>xs.join(sep)\<close>.\<close>

fun join :: "string \<Rightarrow> string list \<Rightarrow> string" where
  "join sep [] = []"
| "join sep [x] = x"
| "join sep (x # y # ys) = x @ sep @ join sep (y # ys)"

subsection \<open>Numbers and their text\<close>

definition digit_char :: "nat \<Rightarrow> char" where
  "digit_char d = ''0123456789'' ! d"

fun digits_of :: "nat \<Rightarrow> string" where
  "digits_of n =
     (if n < 10 then [digit_char n] else digits_of (n div 10) @ [digit_char (n mod 10)])"

declare digits_of.simps [simp del]

text \<open>
  \<^verbatim>\<open>Number.isSafeInteger(n)\<close>: the integers that a JavaScript number holds exactly,
  together with both neighbours.
\<close>

definition Number_isSafeInteger :: "int \<Rightarrow> bool" where
  "Number_isSafeInteger n = (\<bar>n\<bar> \<le> 9007199254740991)"

text \<open>
  \<^verbatim>\<open>`${n}`\<close> for an integer \<open>n\<close>: the decimal numeral, with a minus sign when negative.
  This is what JavaScript prints for the safe integers. Beyond them a number is
  printed with the shortest digits that identify it, and from \<open>10\<^sup>2\<^sup>1\<close> on in
  exponent form (\<^verbatim>\<open>1e+21\<close>), which this function does not follow: a statement about
  the text of a number is a statement about the code only for a safe integer.
\<close>

definition Number_toString :: "int \<Rightarrow> string" where
  "Number_toString n = (if n < 0 then CHR ''-'' # digits_of (nat (- n)) else digits_of (nat n))"

definition is_StrWhiteSpaceChar :: "char \<Rightarrow> bool" where
  "is_StrWhiteSpaceChar c = (c \<in> set [CHR 0x09, CHR 0x0A, CHR 0x0B, CHR 0x0C, CHR 0x0D, CHR 0x20])"

definition digit_value :: "char \<Rightarrow> nat option" where
  "digit_value c =
     map_of (zip ''0123456789abcdefABCDEF''
               [0, 1, 2, 3, 4, 5, 6, 7, 8, 9, 10, 11, 12, 13, 14, 15, 10, 11, 12, 13, 14, 15]) c"

definition is_digit_of_radix :: "nat \<Rightarrow> char \<Rightarrow> bool" where
  "is_digit_of_radix radix c = (case digit_value c of None \<Rightarrow> False | Some d \<Rightarrow> d < radix)"

definition digits_value :: "nat \<Rightarrow> string \<Rightarrow> nat" where
  "digits_value radix ds = foldl (\<lambda>a c. a * radix + the (digit_value c)) 0 ds"

text \<open>
  \<^verbatim>\<open>parseInt(s)\<close> with no radix: leading white space is skipped, then an optional sign,
  then an optional \<^verbatim>\<open>0x\<close> that selects radix 16, then the longest run of digits;
  with no digit the result is \<^verbatim>\<open>NaN\<close> (\<open>None\<close>). The white space is the ASCII one
  (JavaScript also skips the no-break space and the other Unicode spaces), and the
  value is the exact integer (JavaScript rounds it to the nearest number it can hold,
  which changes nothing for a safe integer).
\<close>

definition parseInt :: "string \<Rightarrow> int option" where
  "parseInt s =
     (let t = dropWhile is_StrWhiteSpaceChar s;
          negative = startsWith t ''-'';
          u = (if startsWith t ''-'' \<or> startsWith t ''+'' then drop 1 t else t);
          hex = startsWith u ''0x'' \<or> startsWith u ''0X'';
          radix = (if hex then 16 else 10);
          v = (if hex then drop 2 u else u);
          ds = takeWhile (is_digit_of_radix radix) v
      in if ds = [] then None
         else Some ((if negative then - 1 else 1) * int (digits_value radix ds)))"

subsection \<open>Buffers as text\<close>

definition hex_digit :: "nat \<Rightarrow> char" where
  "hex_digit d = ''0123456789abcdef'' ! d"

text \<open>\<^verbatim>\<open>buf.toString("hex")\<close>, which is also what \<^verbatim>\<open>hmac.digest("hex")\<close> returns.\<close>

definition hex_of_bytes :: "byte list \<Rightarrow> string" where
  "hex_of_bytes bs = concat (map (\<lambda>b. [hex_digit (unat b div 16), hex_digit (unat b mod 16)]) bs)"

definition base64url_alphabet :: string where
  "base64url_alphabet = ''ABCDEFGHIJKLMNOPQRSTUVWXYZabcdefghijklmnopqrstuvwxyz0123456789-_''"

definition base64url_char :: "nat \<Rightarrow> char" where
  "base64url_char d = base64url_alphabet ! d"

text \<open>\<^verbatim>\<open>buf.toString("base64url")\<close>: six bits per character, no padding.\<close>

fun base64url :: "byte list \<Rightarrow> string" where
  "base64url (a # b # c # rest) =
     [base64url_char (unat a div 4),
      base64url_char (unat a mod 4 * 16 + unat b div 16),
      base64url_char (unat b mod 16 * 4 + unat c div 64),
      base64url_char (unat c mod 64)] @ base64url rest"
| "base64url [a, b] =
     [base64url_char (unat a div 4),
      base64url_char (unat a mod 4 * 16 + unat b div 16),
      base64url_char (unat b mod 16 * 4)]"
| "base64url [a] =
     [base64url_char (unat a div 4),
      base64url_char (unat a mod 4 * 16)]"
| "base64url [] = []"

subsection \<open>The URL class\<close>

text \<open>
  \<^verbatim>\<open>new URL(s)\<close> first removes leading and trailing C0 control characters and spaces and
  every tab and newline. Without a base it then fails unless the text begins with a
  scheme (a letter, then letters, digits, \<^verbatim>\<open>+\<close>, \<^verbatim>\<open>-\<close>, \<^verbatim>\<open>.\<close>, then a colon).
  From every state before the query a \<^verbatim>\<open>?\<close> opens the query and a \<^verbatim>\<open>#\<close> the fragment,
  so the query is the text after the first \<^verbatim>\<open>?\<close> that comes before any \<^verbatim>\<open>#\<close>, up to
  that \<^verbatim>\<open>#\<close>.
\<close>

definition is_c0_control_or_space :: "char \<Rightarrow> bool" where
  "is_c0_control_or_space c = ((of_char c :: nat) \<le> 32)"

definition is_tab_or_newline :: "char \<Rightarrow> bool" where
  "is_tab_or_newline c = (c \<in> set [CHR 0x09, CHR 0x0A, CHR 0x0D])"

definition URL_preprocess :: "string \<Rightarrow> string" where
  "URL_preprocess s =
     filter (\<lambda>c. \<not> is_tab_or_newline c)
       (rev (dropWhile is_c0_control_or_space (rev (dropWhile is_c0_control_or_space s))))"

definition is_ascii_alpha :: "char \<Rightarrow> bool" where
  "is_ascii_alpha c =
     (c \<in> set ''ABCDEFGHIJKLMNOPQRSTUVWXYZabcdefghijklmnopqrstuvwxyz'')"

definition is_scheme_char :: "char \<Rightarrow> bool" where
  "is_scheme_char c = (is_ascii_alpha c \<or> c \<in> set ''0123456789+-.'')"

definition has_scheme :: "string \<Rightarrow> bool" where
  "has_scheme s =
     (case s of
        [] \<Rightarrow> False
      | c # cs \<Rightarrow> is_ascii_alpha c \<and> startsWith (dropWhile is_scheme_char cs) '':'')"

definition URL_query :: "string \<Rightarrow> string" where
  "URL_query s =
     (let t = takeWhile (\<lambda>c. c \<noteq> CHR ''#'') s
      in if CHR ''?'' \<in> set t then drop 1 (dropWhile (\<lambda>c. c \<noteq> CHR ''?'') t) else [])"

text \<open>
  \<open>split_on d s\<close> cuts \<open>s\<close> at every \<open>d\<close>. There is always at least one piece, so
  the second case below never sees an empty list of pieces.
\<close>

fun split_on :: "char \<Rightarrow> string \<Rightarrow> string list" where
  "split_on d [] = [[]]"
| "split_on d (c # cs) =
     (if c = d then [] # split_on d cs
      else (case split_on d cs of
              piece # pieces \<Rightarrow> (c # piece) # pieces
            | [] \<Rightarrow> [[c]]))"

definition is_hex_digit :: "char \<Rightarrow> bool" where
  "is_hex_digit c = is_digit_of_radix 16 c"

text \<open>
  Percent escapes, decoded byte by byte. The URL standard reads the decoded bytes as
  UTF-8, which is the same for the escapes of ASCII characters; the escapes of other
  bytes give characters that this function does not follow.
\<close>

fun percent_decode :: "string \<Rightarrow> string" where
  "percent_decode (c # h # l # rest) =
     (if c = CHR ''%'' \<and> is_hex_digit h \<and> is_hex_digit l
      then char_of (the (digit_value h) * 16 + the (digit_value l)) # percent_decode rest
      else c # percent_decode (h # l # rest))"
| "percent_decode cs = cs"

text \<open>
  The \<^verbatim>\<open>application/x-www-form-urlencoded\<close> parser behind \<^verbatim>\<open>url.searchParams\<close>: the
  query is cut at \<^verbatim>\<open>&\<close>, empty pieces are dropped, each piece is cut at its first
  \<^verbatim>\<open>=\<close>, and in name and value \<^verbatim>\<open>+\<close> becomes a space and percent escapes are decoded.
\<close>

definition form_decode :: "string \<Rightarrow> string" where
  "form_decode s = percent_decode (map (\<lambda>c. if c = CHR ''+'' then CHR '' '' else c) s)"

definition parse_pair :: "string \<Rightarrow> string \<times> string" where
  "parse_pair piece =
     (form_decode (takeWhile (\<lambda>c. c \<noteq> CHR ''='') piece),
      form_decode (drop 1 (dropWhile (\<lambda>c. c \<noteq> CHR ''='') piece)))"

definition parse_urlencoded :: "string \<Rightarrow> (string \<times> string) list" where
  "parse_urlencoded q = map parse_pair (filter (\<lambda>piece. piece \<noteq> []) (split_on CHR ''&'' q))"

text \<open>\<^verbatim>\<open>searchParams.get(name)\<close>: the value of the first pair of that name, or \<^verbatim>\<open>null\<close>.\<close>

definition searchParams_get :: "(string \<times> string) list \<Rightarrow> string \<Rightarrow> string option" where
  "searchParams_get ps name = map_of ps name"

record URL =
  searchParams :: "(string \<times> string) list"

subsection \<open>The regular expression of \<^verbatim>\<open>extractUrlData\<close>\<close>

definition is_word_char :: "char \<Rightarrow> bool" where
  "is_word_char c =
     (c \<in> set ''ABCDEFGHIJKLMNOPQRSTUVWXYZabcdefghijklmnopqrstuvwxyz0123456789_'')"

text \<open>
  A match of \<^verbatim>\<open>/&sig=([^&]\w+)/\<close> at the head of \<open>s\<close>: the text \<^verbatim>\<open>&sig=\<close>, one
  character other than \<^verbatim>\<open>&\<close>, then the longest non-empty run of word characters.
  The result is what follows the match.
\<close>

definition sig_match :: "string \<Rightarrow> string option" where
  "sig_match s =
     (if startsWith s ''&sig='' then
        (case drop 5 s of
           [] \<Rightarrow> None
         | x # u \<Rightarrow>
             if x \<noteq> CHR ''&'' \<and> takeWhile is_word_char u \<noteq> []
             then Some (dropWhile is_word_char u) else None)
      else None)"

text \<open>
  \<^verbatim>\<open>s.replace(/&sig=([^&]\w+)/g, "")\<close>: every match, found from left to right and
  never overlapping, is deleted.
\<close>

function replace_sig :: "string \<Rightarrow> string" where
  "replace_sig [] = []"
| "replace_sig (c # cs) =
     (case sig_match (c # cs) of
        Some rest \<Rightarrow> replace_sig rest
      | None \<Rightarrow> c # replace_sig cs)"
  by pat_completeness auto
termination
proof (relation "measure length")
  show "wf (measure length)"
    by simp
next
  fix c :: char and cs rest :: string
  assume "sig_match (c # cs) = Some rest"
  then obtain x u where d: "drop 5 (c # cs) = x # u" and r: "rest = dropWhile is_word_char u"
    by (auto simp: sig_match_def split: if_splits list.splits)
  have "length rest \<le> length u"
    unfolding r by (rule length_dropWhile_le)
  also have "length u < length (x # u)"
    by simp
  also have "length (x # u) = length (drop 5 (c # cs))"
    by (simp only: d)
  also have "\<dots> \<le> length (c # cs)"
    by simp
  finally show "(rest, c # cs) \<in> measure length"
    by simp
next
  fix c :: char and cs :: string
  show "(cs, c # cs) \<in> measure length"
    by simp
qed

declare replace_sig.simps(2) [simp del]

section \<open>The class \<^verbatim>\<open>SignUrl\<close>\<close>

subsection \<open>What the class takes from its runtime\<close>

text \<open>
  Four things come from Node.js and not from the library: the list \<^verbatim>\<open>getHashes()\<close>;
  the digests with which \<^verbatim>\<open>createHmac(algorithm, key)\<close> can set up an HMAC (not every
  name of \<^verbatim>\<open>getHashes()\<close> is one: for the extendable-output functions \<^verbatim>\<open>shake128\<close>
  and \<^verbatim>\<open>shake256\<close> it throws); the HMAC primitive behind it (algorithm, key and
  message to digest bytes); and the part of the URL parser that validates what follows
  the scheme (authority, host, port). All theorems hold for every such runtime.
\<close>

record runtime =
  getHashes :: "string list"
  createHmac_accepts :: "string \<Rightarrow> bool"
  hmac :: "string \<Rightarrow> string \<Rightarrow> string \<Rightarrow> byte list"
  URL_canParse :: "string \<Rightarrow> bool"

text \<open>
  An \<^verbatim>\<open>Hmac\<close> object: \<^verbatim>\<open>createHmac\<close> makes it or throws, \<^verbatim>\<open>update\<close> appends to the
  message, \<^verbatim>\<open>digest("hex")\<close> closes it.
\<close>

record Hmac =
  algorithm :: string
  hmac_key :: string
  message :: string

definition createHmac :: "runtime \<Rightarrow> string \<Rightarrow> string \<Rightarrow> error + Hmac" where
  "createHmac rt alg k =
     (if createHmac_accepts rt alg
      then Inr \<lparr>algorithm = alg, hmac_key = k, message = []\<rparr>
      else Inl Error_createHmac)"

definition update :: "string \<Rightarrow> Hmac \<Rightarrow> Hmac" where
  "update data h = h\<lparr>message := message h @ data\<rparr>"

definition digest_hex :: "runtime \<Rightarrow> Hmac \<Rightarrow> string" where
  "digest_hex rt h = hex_of_bytes (hmac rt (algorithm h) (hmac_key h) (message h))"

definition URL_parses :: "runtime \<Rightarrow> string \<Rightarrow> bool" where
  "URL_parses rt s = (has_scheme (URL_preprocess s) \<and> URL_canParse rt s)"

definition URL_new :: "runtime \<Rightarrow> string \<Rightarrow> error + URL" where
  "URL_new rt s =
     (if URL_parses rt s
      then Inr \<lparr>searchParams = parse_urlencoded (URL_query (URL_preprocess s))\<rparr>
      else Inl TypeError_InvalidURL)"

subsection \<open>Options and data\<close>

datatype hash_option = HashName string | HashFunc "string \<Rightarrow> string"

record SignatureOptions =
  key :: "string option"
  ttl :: "int option"
  hash :: "hash_option option"

datatype method_option = Method string | Methods "string list"

record SignOptions =
  "method" :: "method_option option"
  ttl :: "int option"
  expires :: "int option"
  ipAddress :: "string option"

record VerifyOptions =
  "method" :: "string option"
  ipAddress :: "string option"

record SignatureData =
  "method" :: "string option"
  expires :: "int option"
  ipAddress :: "string option"
  r :: string

record SignatureData_signed = SignatureData +
  signature :: string

record SignedURLData =
  urlWithoutSignature :: string
  signatureData :: SignatureData_signed

text \<open>The private fields of an instance, as the constructor sets them.\<close>

record SignUrl =
  key :: "string option"
  ttl :: int
  hash :: hash_option

definition SignUrl_new :: "SignatureOptions \<Rightarrow> SignUrl" where
  "SignUrl_new options =
     \<lparr>key = SignatureOptions.key options,
      ttl = (case SignatureOptions.ttl options of None \<Rightarrow> 30 | Some t \<Rightarrow> t),
      hash = (case SignatureOptions.hash options of None \<Rightarrow> HashName ''sha256'' | Some h \<Rightarrow> h)\<rparr>"

text \<open>Truthiness of an optional string: \<^verbatim>\<open>undefined\<close> and \<^verbatim>\<open>""\<close> are falsy.\<close>

definition truthy :: "string option \<Rightarrow> bool" where
  "truthy v = (case v of None \<Rightarrow> False | Some s \<Rightarrow> s \<noteq> [])"

subsection \<open>Digest\<close>

definition isValidAlgorithm :: "runtime \<Rightarrow> string \<Rightarrow> bool" where
  "isValidAlgorithm rt alg = (alg \<in> set (getHashes rt))"

definition isProvidedKey :: "SignUrl \<Rightarrow> bool" where
  "isProvidedKey this = truthy (key this)"

definition generateSignature :: "runtime \<Rightarrow> SignUrl \<Rightarrow> string \<Rightarrow> string \<Rightarrow> error + string" where
  "generateSignature rt this data alg =
     (if \<not> isProvidedKey this then Inl NotProvideKeyError
      else if \<not> isValidAlgorithm rt alg then Inl NotSupportedAlgorithmError
      else (case createHmac rt alg (the (key this)) of
              Inl e \<Rightarrow> Inl e
            | Inr h \<Rightarrow> Inr (digest_hex rt (update (the (key this)) (update data h)))))"

text \<open>
  A call of \<^verbatim>\<open>this.hash\<close>: the closure over \<^verbatim>\<open>generateSignature\<close> that the
  constructor builds for a named algorithm, or the caller's own function.
\<close>

definition hash_call :: "runtime \<Rightarrow> SignUrl \<Rightarrow> string \<Rightarrow> error + string" where
  "hash_call rt this data =
     (case hash this of
        HashName alg \<Rightarrow> generateSignature rt this data alg
      | HashFunc f \<Rightarrow> Inr (f data))"

subsection \<open>\<^verbatim>\<open>sign\<close>\<close>

text \<open>
  \<^verbatim>\<open>new Date(t).valueOf()\<close>: a date holds a time of at most \<open>8.64 \<times> 10\<^sup>1\<^sup>5\<close>
  milliseconds before or after the epoch, and its value is \<^verbatim>\<open>NaN\<close> (\<open>None\<close>) for any
  other time.
\<close>

definition Date_valueOf :: "int \<Rightarrow> int option" where
  "Date_valueOf t = (if \<bar>t\<bar> \<le> 8640000000000000 then Some t else None)"

text \<open>
  \<^verbatim>\<open>dayjs().add(m, "m").valueOf()\<close> with the clock at \<open>now\<close>: \<^verbatim>\<open>dayjs\<close> adds
  \<open>m * 60000\<close> milliseconds to the clock reading and makes a date of the sum.
\<close>

definition dayjs_add_minutes :: "int \<Rightarrow> int \<Rightarrow> int option" where
  "dayjs_add_minutes now m = Date_valueOf (now + m * 60000)"

text \<open>
  Lines 196 to 212: the signature data. \<open>now\<close> is the clock reading of \<^verbatim>\<open>dayjs()\<close>
  in milliseconds, \<open>rnd\<close> the result of \<^verbatim>\<open>randomBytes(16)\<close>. An expiry that is
  \<^verbatim>\<open>NaN\<close> is written like an absent one by line 217, and is \<open>None\<close> here.
\<close>

definition sign_signatureData :: "SignUrl \<Rightarrow> int \<Rightarrow> byte list \<Rightarrow> SignOptions \<Rightarrow> SignatureData" where
  "sign_signatureData this now rnd options =
     \<lparr>method =
        (case SignOptions.method options of
           None \<Rightarrow> None
         | Some (Method m) \<Rightarrow> if m \<noteq> [] then Some (toUpperCase m) else None
         | Some (Methods ms) \<Rightarrow> Some (toUpperCase (join '','' ms))),
      expires =
        (if ttl this \<noteq> 0 then dayjs_add_minutes now (ttl this)
         else if SignOptions.ttl options \<noteq> None \<and> SignOptions.ttl options \<noteq> Some 0
           then dayjs_add_minutes now (the (SignOptions.ttl options))
         else if SignOptions.expires options \<noteq> None \<and> SignOptions.expires options \<noteq> Some 0
           then SignOptions.expires options
         else None),
      ipAddress =
        (if truthy (SignOptions.ipAddress options) then SignOptions.ipAddress options else None),
      r = base64url rnd\<rparr>"

text \<open>The three \<^verbatim>\<open>x || ""\<close> of the template on line 217.\<close>

definition expires_or_empty :: "int option \<Rightarrow> string" where
  "expires_or_empty e = (case e of None \<Rightarrow> [] | Some n \<Rightarrow> if n = 0 then [] else Number_toString n)"

definition string_or_empty :: "string option \<Rightarrow> string" where
  "string_or_empty v = (case v of None \<Rightarrow> [] | Some s \<Rightarrow> s)"

text \<open>Lines 214 to 217: the value of \<^verbatim>\<open>url\<close> when it is handed to \<^verbatim>\<open>this.hash\<close>.\<close>

definition sign_payload :: "string \<Rightarrow> SignatureData \<Rightarrow> string" where
  "sign_payload url sd =
     (let prefix = (if indexOf url ''?'' = - 1 then ''?'' else ''&'')
      in url @ prefix @ ''expires='' @ expires_or_empty (expires sd)
           @ ''&ip='' @ string_or_empty (ipAddress sd)
           @ ''&method='' @ string_or_empty (method sd)
           @ ''&r='' @ r sd)"

definition sign :: "runtime \<Rightarrow> SignUrl \<Rightarrow> int \<Rightarrow> byte list \<Rightarrow> string \<Rightarrow> SignOptions \<Rightarrow> error + string" where
  "sign rt this now rnd url options =
     (let signatureData = sign_signatureData this now rnd options;
          url1 = sign_payload url signatureData
      in case hash_call rt this url1 of
           Inl e \<Rightarrow> Inl e
         | Inr digest \<Rightarrow> Inr (url1 @ ''&sig='' @ digest))"

subsection \<open>\<^verbatim>\<open>extractUrlData\<close>\<close>

definition extractUrlData :: "runtime \<Rightarrow> string \<Rightarrow> error + SignedURLData" where
  "extractUrlData rt url =
     (case URL_new rt url of
        Inl e \<Rightarrow> Inl e
      | Inr urlObj \<Rightarrow>
          (let get = (\<lambda>name. searchParams_get (searchParams urlObj) name);
               expires = parseInt (if truthy (get ''expires'') then the (get ''expires'') else ''0'');
               ipAddress = string_or_empty (get ''ip'');
               method = string_or_empty (get ''method'');
               r = string_or_empty (get ''r'');
               signature = string_or_empty (get ''sig'');
               urlWithoutSignature = replace_sig url
           in Inr \<lparr>urlWithoutSignature = urlWithoutSignature,
                    signatureData =
                      \<lparr>method = Some method, expires = expires, ipAddress = Some ipAddress,
                       r = r, signature = signature\<rparr>\<rparr>))"

subsection \<open>\<^verbatim>\<open>verify\<close>\<close>

definition isValidURLSignature :: "runtime \<Rightarrow> SignUrl \<Rightarrow> string \<Rightarrow> string \<Rightarrow> error + bool" where
  "isValidURLSignature rt this url sg =
     (case hash_call rt this url of Inl e \<Rightarrow> Inl e | Inr h \<Rightarrow> Inr (sg = h))"

text \<open>
  The operand \<^verbatim>\<open>(!options.method || method.indexOf(options.method.toUpperCase()))\<close> of
  line 271 is a JavaScript value: the boolean \<^verbatim>\<open>true\<close> when \<^verbatim>\<open>options.method\<close> is
  falsy, and otherwise the number that \<^verbatim>\<open>indexOf\<close> returns. It is then compared
  with \<^verbatim>\<open>-1\<close> by \<^verbatim>\<open>===\<close>, which is false for values of different types.
\<close>

datatype js_value = JBoolean bool | JNumber int

fun strict_equals :: "js_value \<Rightarrow> js_value \<Rightarrow> bool" where
  "strict_equals (JBoolean a) (JBoolean b) = (a = b)"
| "strict_equals (JNumber a) (JNumber b) = (a = b)"
| "strict_equals _ _ = False"

definition method_operand :: "string \<Rightarrow> string option \<Rightarrow> js_value" where
  "method_operand allowed options_method =
     (if \<not> truthy options_method then JBoolean True
      else JNumber (indexOf allowed (toUpperCase (the options_method))))"

text \<open>\<open>now\<close> is the clock reading of \<^verbatim>\<open>dayjs().valueOf()\<close> on line 273.\<close>

definition verify :: "runtime \<Rightarrow> SignUrl \<Rightarrow> int \<Rightarrow> string \<Rightarrow> VerifyOptions \<Rightarrow> error + bool" where
  "verify rt this now url options =
     (case extractUrlData rt url of
        Inl e \<Rightarrow> Inl e
      | Inr d \<Rightarrow>
          (let expires = SignatureData.expires (signatureData d);
               ipAddress = SignatureData.ipAddress (signatureData d);
               method = SignatureData.method (signatureData d)
           in if truthy ipAddress
                 \<and> (\<not> truthy (VerifyOptions.ipAddress options)
                      \<or> ipAddress \<noteq> VerifyOptions.ipAddress options)
              then Inl BlackholedSignatureError
              else if truthy method
                 \<and> strict_equals
                      (method_operand (the method) (VerifyOptions.method options))
                      (JNumber (- 1))
              then Inl BlackholedSignatureError
              else if expires \<noteq> None \<and> expires \<noteq> Some 0 \<and> the expires < now
              then Inl ExpiredSignatureError
              else (case isValidURLSignature rt this (urlWithoutSignature d)
                           (signature (signatureData d)) of
                      Inl e \<Rightarrow> Inl e
                    | Inr ok \<Rightarrow> if \<not> ok then Inl MismatchSignatureError else Inr True)))"

section \<open>Notions used to state the properties\<close>

text \<open>
  A value can be appended to a query as it is, and read back unchanged by
  \<^verbatim>\<open>searchParams.get\<close>, when it has no separator, no fragment mark, no escape and no
  character the URL parser removes.
\<close>

definition query_safe :: "string \<Rightarrow> bool" where
  "query_safe s =
     list_all (\<lambda>c. c \<notin> set [CHR ''&'', CHR ''#'', CHR ''+'', CHR ''%'', CHR 0x09, CHR 0x0A, CHR 0x0D]) s"

definition signable_options :: "SignOptions \<Rightarrow> bool" where
  "signable_options options =
     (query_safe (string_or_empty (SignOptions.ipAddress options))
      \<and> (case SignOptions.method options of
            None \<Rightarrow> True
          | Some (Method m) \<Rightarrow> query_safe m
          | Some (Methods ms) \<Rightarrow> list_all query_safe ms))"

text \<open>
  The query parameters that \<open>url\<close> contributes when more text follows it: what the URL
  parser reads from \<open>url\<close> as the front part of a longer text (only leading control
  characters and spaces are trimmed then).
\<close>

definition params_in_front :: "string \<Rightarrow> (string \<times> string) list" where
  "params_in_front url =
     parse_urlencoded
       (URL_query (filter (\<lambda>c. \<not> is_tab_or_newline c) (dropWhile is_c0_control_or_space url)))"

text \<open>
  A URL that \<^verbatim>\<open>sign\<close> can extend by plain concatenation: it has no fragment, it does
  not contain \<^verbatim>\<open>&sig=\<close>, and none of its own parameters has a name that \<^verbatim>\<open>verify\<close>
  reads.
\<close>

definition signable_url :: "string \<Rightarrow> bool" where
  "signable_url url =
     (CHR ''#'' \<notin> set url
      \<and> indexOf url ''&sig='' = - 1
      \<and> list_all (\<lambda>name. searchParams_get (params_in_front url) name = None)
           [''expires'', ''ip'', ''method'', ''sig''])"

text \<open>
  The digest function of the instance accepts \<open>data\<close> and returns at least two
  characters, all of them word characters, as every hexadecimal HMAC does.
\<close>

definition digest_ok :: "runtime \<Rightarrow> SignUrl \<Rightarrow> string \<Rightarrow> bool" where
  "digest_ok rt this data =
     (case hash_call rt this data of
        Inl e \<Rightarrow> False
      | Inr d \<Rightarrow> 2 \<le> length d \<and> list_all is_word_char d)"

text \<open>
  The context of \<^verbatim>\<open>verify\<close> agrees with the options of \<^verbatim>\<open>sign\<close>: it carries the
  bound address when one was bound, and a method that equals the signed method, or
  one of the signed methods, up to case.
\<close>

definition ip_matches :: "SignOptions \<Rightarrow> VerifyOptions \<Rightarrow> bool" where
  "ip_matches options context =
     (truthy (SignOptions.ipAddress options)
        \<longrightarrow> VerifyOptions.ipAddress context = SignOptions.ipAddress options)"

definition method_matches :: "SignOptions \<Rightarrow> VerifyOptions \<Rightarrow> bool" where
  "method_matches options context =
     (case SignOptions.method options of
        None \<Rightarrow> True
      | Some (Method m) \<Rightarrow>
          (case VerifyOptions.method context of
             None \<Rightarrow> False
           | Some cm \<Rightarrow> toUpperCase cm = toUpperCase m)
      | Some (Methods ms) \<Rightarrow>
          (case VerifyOptions.method context of
             None \<Rightarrow> False
           | Some cm \<Rightarrow> toUpperCase cm \<in> set (map toUpperCase ms)))"

text \<open>
  The expiry that \<^verbatim>\<open>sign\<close> resolved, if it resolved one, is a safe integer: its text
  in the URL is then its decimal numeral, and \<^verbatim>\<open>parseInt\<close> reads it back exactly.
\<close>

definition expiry_safe :: "SignatureData \<Rightarrow> bool" where
  "expiry_safe sd =
     (case SignatureData.expires sd of None \<Rightarrow> True | Some e \<Rightarrow> Number_isSafeInteger e)"

text \<open>The time \<open>now\<close> is not after the expiry that \<^verbatim>\<open>sign\<close> resolved, if it resolved one.\<close>

definition not_expired :: "SignatureData \<Rightarrow> int \<Rightarrow> bool" where
  "not_expired sd now = (case SignatureData.expires sd of None \<Rightarrow> True | Some e \<Rightarrow> now \<le> e)"

text \<open>
  The four checks of \<^verbatim>\<open>verify\<close>, each stated on the data parsed from the URL: the
  signature is bound to an address and the context does not carry that address; the
  signature names allowed methods, the context carries a method, and its upper-cased
  form does not occur in the allowed text; the expiry is set and lies before \<open>now\<close>;
  and the comparison of the parsed signature with the digest of the unsigned text.
\<close>

definition ip_binding_fails :: "SignedURLData \<Rightarrow> VerifyOptions \<Rightarrow> bool" where
  "ip_binding_fails data context =
     (case SignatureData.ipAddress (signatureData data) of
        None \<Rightarrow> False
      | Some i \<Rightarrow> i \<noteq> [] \<and> VerifyOptions.ipAddress context \<noteq> Some i)"

definition method_allow_fails :: "SignedURLData \<Rightarrow> VerifyOptions \<Rightarrow> bool" where
  "method_allow_fails data context =
     (case SignatureData.method (signatureData data) of
        None \<Rightarrow> False
      | Some m \<Rightarrow>
          m \<noteq> []
          \<and> (case VerifyOptions.method context of
                None \<Rightarrow> False
              | Some cm \<Rightarrow> cm \<noteq> [] \<and> indexOf m (toUpperCase cm) = - 1))"

definition expiry_passed :: "SignedURLData \<Rightarrow> int \<Rightarrow> bool" where
  "expiry_passed data now =
     (case SignatureData.expires (signatureData data) of
        None \<Rightarrow> False
      | Some e \<Rightarrow> e \<noteq> 0 \<and> e < now)"

definition digest_comparison :: "runtime \<Rightarrow> SignUrl \<Rightarrow> SignedURLData \<Rightarrow> error + bool" where
  "digest_comparison rt this data =
     (case hash_call rt this (urlWithoutSignature data) of
        Inl e \<Rightarrow> Inl e
      | Inr h \<Rightarrow>
          if signature (signatureData data) = h then Inr True else Inl MismatchSignatureError)"

subsection \<open>An example runtime\<close>

text \<open>
  A small runtime at which the theorems are instantiated: five algorithm names, of
  which \<^verbatim>\<open>createHmac\<close> accepts all but \<^verbatim>\<open>shake128\<close>, a two-byte stand-in for the
  HMAC, and a URL parser that accepts every text with a scheme. The general theorems
  hold for every runtime; this one serves to evaluate them on concrete URLs.
\<close>

definition example_runtime :: runtime where
  "example_runtime =
     \<lparr>getHashes = [''md5'', ''sha1'', ''sha256'', ''sha512'', ''shake128''],
      createHmac_accepts = (\<lambda>alg. alg \<in> set [''md5'', ''sha1'', ''sha256'', ''sha512'']),
      hmac = (\<lambda>alg k m. [of_nat (length k), of_nat (length m)]),
      URL_canParse = (\<lambda>s. True)\<rparr>"

definition example_signer :: SignUrl where
  "example_signer =
     SignUrl_new \<lparr>SignatureOptions.key = Some ''abc'', SignatureOptions.ttl = Some 0,
                  SignatureOptions.hash = None\<rparr>"

definition example_random :: "byte list" where
  "example_random = [1, 2, 3, 4, 5, 6, 7, 8, 9, 10, 11, 12, 13, 14, 15, 16]"

section \<open>Facts about the runtime functions\<close>

lemma unat_byte_less: "unat (b :: byte) < 256"
  using unsigned_less [of b, where ?'a = nat] by simp

lemma hex_digit_mem: "d < 16 \<Longrightarrow> hex_digit d \<in> set ''0123456789abcdef''"
  unfolding hex_digit_def by (rule nth_mem) simp

lemma hex_of_bytes_chars: "c \<in> set (hex_of_bytes bs) \<Longrightarrow> c \<in> set ''0123456789abcdef''"
proof (induction bs)
  case Nil
  then show ?case by (simp add: hex_of_bytes_def)
next
  case (Cons b bs)
  have "unat b div 16 < 16"
    using unat_byte_less [of b] by simp
  then have "hex_digit (unat b div 16) \<in> set ''0123456789abcdef''"
    by (rule hex_digit_mem)
  moreover have "hex_digit (unat b mod 16) \<in> set ''0123456789abcdef''"
    by (rule hex_digit_mem) simp
  moreover from Cons.prems
  have "c = hex_digit (unat b div 16) \<or> c = hex_digit (unat b mod 16) \<or> c \<in> set (hex_of_bytes bs)"
    by (simp add: hex_of_bytes_def)
  ultimately show ?case
    using Cons.IH by blast
qed

lemma length_hex_of_bytes: "length (hex_of_bytes bs) = 2 * length bs"
  by (induction bs) (simp_all add: hex_of_bytes_def)

lemma hex_char_is_word: "c \<in> set ''0123456789abcdef'' \<Longrightarrow> is_word_char c"
  by (auto simp: is_word_char_def)

lemma startsWith_iff: "startsWith s p \<longleftrightarrow> (\<exists>b. s = p @ b)"
proof
  assume "startsWith s p"
  then have "s = p @ drop (length p) s"
    unfolding startsWith_def by (metis append_take_drop_id)
  then show "\<exists>b. s = p @ b" ..
next
  assume "\<exists>b. s = p @ b"
  then show "startsWith s p"
    unfolding startsWith_def by auto
qed

lemma indexOf_from_absent:
  "0 \<le> i \<Longrightarrow> indexOf_from i s t = - 1 \<longleftrightarrow> \<not> (\<exists>a b. s = a @ t @ b)"
proof (induction s arbitrary: i)
  case Nil
  then show ?case by auto
next
  case (Cons c cs)
  show ?case
  proof (cases "startsWith (c # cs) t")
    case True
    then obtain b where "c # cs = [] @ t @ b"
      unfolding startsWith_iff by auto
    then have "\<exists>a b. c # cs = a @ t @ b"
      by blast
    with True Cons.prems show ?thesis
      by simp
  next
    case False
    have "(\<exists>a b. c # cs = a @ t @ b) \<longleftrightarrow> (\<exists>a b. cs = a @ t @ b)"
    proof
      assume "\<exists>a b. c # cs = a @ t @ b"
      then obtain a b where ab: "c # cs = a @ t @ b"
        by blast
      from False ab have "a \<noteq> []"
        unfolding startsWith_iff by auto
      with ab obtain a' where "a = c # a'" "cs = a' @ t @ b"
        by (cases a) auto
      then show "\<exists>a b. cs = a @ t @ b"
        by blast
    next
      assume "\<exists>a b. cs = a @ t @ b"
      then obtain a b where "cs = a @ t @ b"
        by blast
      then have "c # cs = (c # a) @ t @ b"
        by simp
      then show "\<exists>a b. c # cs = a @ t @ b"
        by blast
    qed
    moreover have "indexOf_from (i + 1) cs t = - 1 \<longleftrightarrow> \<not> (\<exists>a b. cs = a @ t @ b)"
      using Cons.prems by (intro Cons.IH) simp
    ultimately show ?thesis
      using False by simp
  qed
qed

lemma indexOf_absent: "indexOf s t = - 1 \<longleftrightarrow> \<not> (\<exists>a b. s = a @ t @ b)"
  unfolding indexOf_def by (rule indexOf_from_absent) simp

lemma indexOf_char_absent: "indexOf s [c] = - 1 \<longleftrightarrow> c \<notin> set s"
proof -
  have "(\<exists>a b. s = a @ [c] @ b) \<longleftrightarrow> c \<in> set s"
    by (auto simp: in_set_conv_decomp)
  then show ?thesis
    by (simp add: indexOf_absent)
qed

lemma indexOf_from_prefix: "startsWith s t \<Longrightarrow> indexOf_from i s t = i"
  by (cases s) (auto simp: startsWith_def)

lemma indexOf_self: "indexOf s s = 0"
  unfolding indexOf_def by (rule indexOf_from_prefix) (simp add: startsWith_def)

lemma toUpperCase_char_cases:
  "toUpperCase_char c = c \<or> toUpperCase_char c \<in> set ''ABCDEFGHIJKLMNOPQRSTUVWXYZ''"
proof (cases "map_of (zip ''abcdefghijklmnopqrstuvwxyz'' ''ABCDEFGHIJKLMNOPQRSTUVWXYZ'') c")
  case None
  show ?thesis
    unfolding toUpperCase_char_def None by simp
next
  case (Some u)
  then have "(c, u) \<in> set (zip ''abcdefghijklmnopqrstuvwxyz'' ''ABCDEFGHIJKLMNOPQRSTUVWXYZ'')"
    by (rule map_of_SomeD)
  then have "u \<in> set ''ABCDEFGHIJKLMNOPQRSTUVWXYZ''"
    by (rule set_zip_rightD)
  then show ?thesis
    unfolding toUpperCase_char_def Some by simp
qed

lemma toUpperCase_char_fixed:
  assumes "c \<notin> set ''abcdefghijklmnopqrstuvwxyz''"
  shows "toUpperCase_char c = c"
proof -
  have "map fst (zip ''abcdefghijklmnopqrstuvwxyz'' ''ABCDEFGHIJKLMNOPQRSTUVWXYZ'')
          = ''abcdefghijklmnopqrstuvwxyz''"
    by (rule map_fst_zip) simp
  then have "fst ` set (zip ''abcdefghijklmnopqrstuvwxyz'' ''ABCDEFGHIJKLMNOPQRSTUVWXYZ'')
          = set ''abcdefghijklmnopqrstuvwxyz''"
    by (metis set_map)
  with assms
  have n: "map_of (zip ''abcdefghijklmnopqrstuvwxyz'' ''ABCDEFGHIJKLMNOPQRSTUVWXYZ'') c = None"
    by (simp only: map_of_eq_None_iff not_False_eq_True)
  show ?thesis
    unfolding toUpperCase_char_def n by simp
qed

lemma toUpperCase_append: "toUpperCase (a @ b) = toUpperCase a @ toUpperCase b"
  by (simp add: toUpperCase_def)

lemma toUpperCase_empty: "toUpperCase s = [] \<longleftrightarrow> s = []"
  by (simp add: toUpperCase_def)

lemma toUpperCase_comma: "toUpperCase '','' = '',''"
  by (simp add: toUpperCase_def toUpperCase_char_def)

lemma toUpperCase_join: "toUpperCase (join '','' ms) = join '','' (map toUpperCase ms)"
proof (induction ms rule: induct_list012)
  case 1
  then show ?case by (simp add: toUpperCase_def)
next
  case (2 x)
  then show ?case by simp
next
  case (3 x y zs)
  have "toUpperCase (join '','' (x # y # zs))
          = toUpperCase x @ toUpperCase '','' @ toUpperCase (join '','' (y # zs))"
    by (simp only: join.simps toUpperCase_append)
  also have "\<dots> = toUpperCase x @ '','' @ join '','' (map toUpperCase (y # zs))"
    by (simp only: toUpperCase_comma "3.IH"(2))
  also have "\<dots> = join '','' (map toUpperCase (x # y # zs))"
    by simp
  finally show ?case .
qed

lemma join_contains: "m \<in> set ms \<Longrightarrow> \<exists>a b. join sep ms = a @ m @ b"
proof (induction sep ms rule: join.induct)
  case (1 sep)
  then show ?case by simp
next
  case (2 sep x)
  then have "join sep [x] = [] @ m @ []"
    by simp
  then show ?case by blast
next
  case (3 sep x y ys)
  show ?case
  proof (cases "m = x")
    case True
    then have "join sep (x # y # ys) = [] @ m @ (sep @ join sep (y # ys))"
      by simp
    then show ?thesis by blast
  next
    case False
    with "3.prems" have "m \<in> set (y # ys)"
      by simp
    then obtain a b where "join sep (y # ys) = a @ m @ b"
      using "3.IH" by blast
    then have "join sep (x # y # ys) = (x @ sep @ a) @ m @ b"
      by simp
    then show ?thesis by blast
  qed
qed

lemma digit_char_facts:
  assumes "d < 10"
  shows "digit_value (digit_char d) = Some d" and "digit_char d \<in> set ''0123456789''"
proof -
  from assms have "d = 0 \<or> d = 1 \<or> d = 2 \<or> d = 3 \<or> d = 4 \<or> d = 5 \<or> d = 6 \<or> d = 7 \<or> d = 8 \<or> d = 9"
    by arith
  then show "digit_value (digit_char d) = Some d"
    by (elim disjE) (simp_all add: digit_value_def digit_char_def)
  show "digit_char d \<in> set ''0123456789''"
    unfolding digit_char_def using assms by (intro nth_mem) simp
qed

lemma digits_of_nonempty: "digits_of n \<noteq> []"
  by (subst digits_of.simps) simp

lemma digits_of_chars: "c \<in> set (digits_of n) \<Longrightarrow> c \<in> set ''0123456789''"
proof (induction n arbitrary: c rule: digits_of.induct)
  case (1 n)
  show ?case
  proof (cases "n < 10")
    case True
    with "1.prems" have "c = digit_char n"
      by (subst (asm) digits_of.simps) simp
    with True show ?thesis
      using digit_char_facts(2) by blast
  next
    case False
    with "1.prems" have "c \<in> set (digits_of (n div 10)) \<or> c = digit_char (n mod 10)"
      by (subst (asm) digits_of.simps) auto
    moreover have "digit_char (n mod 10) \<in> set ''0123456789''"
      by (rule digit_char_facts(2)) simp
    ultimately show ?thesis
      using "1.IH" [OF False] by blast
  qed
qed

lemma digits_value_snoc:
  "digits_value radix (ds @ [c]) = digits_value radix ds * radix + the (digit_value c)"
  by (simp add: digits_value_def)

lemma digits_value_digits_of: "digits_value 10 (digits_of n) = n"
proof (induction n rule: digits_of.induct)
  case (1 n)
  show ?case
  proof (cases "n < 10")
    case True
    then have "digits_of n = [digit_char n]"
      by (subst digits_of.simps) simp
    with True show ?thesis
      by (simp add: digits_value_def digit_char_facts(1))
  next
    case False
    then have "digits_of n = digits_of (n div 10) @ [digit_char (n mod 10)]"
      by (subst digits_of.simps) simp
    moreover have "digit_value (digit_char (n mod 10)) = Some (n mod 10)"
      by (rule digit_char_facts(1)) simp
    ultimately show ?thesis
      using "1.IH" [OF False] by (simp add: digits_value_snoc)
  qed
qed

lemma decimal_char_facts:
  assumes "c \<in> set ''0123456789''"
  shows "is_digit_of_radix 10 c" and "\<not> is_StrWhiteSpaceChar c"
    and "c \<noteq> CHR ''-''" and "c \<noteq> CHR ''+''" and "c \<noteq> CHR ''x''" and "c \<noteq> CHR ''X''"
proof -
  from assms have c: "c = CHR ''0'' \<or> c = CHR ''1'' \<or> c = CHR ''2'' \<or> c = CHR ''3'' \<or> c = CHR ''4''
      \<or> c = CHR ''5'' \<or> c = CHR ''6'' \<or> c = CHR ''7'' \<or> c = CHR ''8'' \<or> c = CHR ''9''"
    by simp
  from c show "is_digit_of_radix 10 c"
    by (elim disjE) (simp_all add: is_digit_of_radix_def digit_value_def)
  from c show "\<not> is_StrWhiteSpaceChar c"
    by (elim disjE) (simp_all add: is_StrWhiteSpaceChar_def)
  from c show "c \<noteq> CHR ''-''" "c \<noteq> CHR ''+''" "c \<noteq> CHR ''x''" "c \<noteq> CHR ''X''"
    by (elim disjE; simp)+
qed

lemma parseInt_decimal:
  assumes "ds \<noteq> []" and "\<forall>c \<in> set ds. c \<in> set ''0123456789''"
  shows "parseInt ds = Some (int (digits_value 10 ds))"
    and "parseInt (CHR ''-'' # ds) = Some (- int (digits_value 10 ds))"
proof -
  from assms obtain c cs where ds: "ds = c # cs"
    by (cases ds) auto
  with assms have c: "c \<in> set ''0123456789''"
    by simp
  have ws: "dropWhile is_StrWhiteSpaceChar ds = ds"
    using decimal_char_facts(2) [OF c] by (simp add: ds)
  have sign: "\<not> startsWith ds ''-''" "\<not> startsWith ds ''+''"
    using decimal_char_facts(3,4) [OF c] by (auto simp: ds startsWith_def)
  have "CHR ''x'' \<notin> set ds" "CHR ''X'' \<notin> set ds"
    using assms(2) decimal_char_facts(5,6) by blast+
  then have hex: "\<not> startsWith ds ''0x''" "\<not> startsWith ds ''0X''"
    unfolding startsWith_iff by auto
  have tw: "takeWhile (is_digit_of_radix 10) ds = ds"
    using assms(2) decimal_char_facts(1) by (simp add: takeWhile_eq_all_conv)
  show "parseInt ds = Some (int (digits_value 10 ds))"
    unfolding parseInt_def ws Let_def using sign hex assms(1) by (simp add: tw)
  have ws': "dropWhile is_StrWhiteSpaceChar (CHR ''-'' # ds) = CHR ''-'' # ds"
    by (simp add: is_StrWhiteSpaceChar_def)
  have neg: "startsWith (CHR ''-'' # ds) ''-''"
    by (simp add: startsWith_def)
  show "parseInt (CHR ''-'' # ds) = Some (- int (digits_value 10 ds))"
    unfolding parseInt_def ws' Let_def using neg hex assms(1) by (simp add: tw)
qed

lemma parseInt_Number_toString: "parseInt (Number_toString n) = Some n"
proof (cases "n < 0")
  case True
  have "parseInt (CHR ''-'' # digits_of (nat (- n))) = Some (- int (digits_value 10 (digits_of (nat (- n)))))"
    by (rule parseInt_decimal(2)) (auto simp: digits_of_nonempty dest: digits_of_chars simp del: set_simps list.set)
  with True show ?thesis
    by (simp add: Number_toString_def digits_value_digits_of)
next
  case False
  have "parseInt (digits_of (nat n)) = Some (int (digits_value 10 (digits_of (nat n))))"
    by (rule parseInt_decimal(1)) (auto simp: digits_of_nonempty dest: digits_of_chars simp del: set_simps list.set)
  with False show ?thesis
    by (simp add: Number_toString_def digits_value_digits_of)
qed

lemma Number_toString_nonempty: "Number_toString n \<noteq> []"
  by (simp add: Number_toString_def digits_of_nonempty)

lemma Number_toString_chars: "c \<in> set (Number_toString n) \<Longrightarrow> c \<in> set ''-0123456789''"
proof -
  assume "c \<in> set (Number_toString n)"
  then have "c = CHR ''-'' \<or> c \<in> set (digits_of (nat (- n))) \<or> c \<in> set (digits_of (nat n))"
    unfolding Number_toString_def by (cases "n < 0") auto
  then have "c = CHR ''-'' \<or> c \<in> set ''0123456789''"
    using digits_of_chars by blast
  then show ?thesis
    by auto
qed

lemma parseInt_zero: "parseInt ''0'' = Some 0"
  by (simp add: parseInt_def startsWith_def is_StrWhiteSpaceChar_def is_digit_of_radix_def
      digit_value_def digits_value_def)

lemma percent_decode_plain: "CHR ''%'' \<notin> set s \<Longrightarrow> percent_decode s = s"
  by (induction s rule: percent_decode.induct) auto

lemma form_decode_plain:
  assumes "CHR ''+'' \<notin> set s" and "CHR ''%'' \<notin> set s"
  shows "form_decode s = s"
proof -
  have "map (\<lambda>c. if c = CHR ''+'' then CHR '' '' else c) s = s"
    using assms(1) by (intro map_idI) auto
  then show ?thesis
    using assms(2) by (simp add: form_decode_def percent_decode_plain)
qed

lemma query_safe_facts:
  assumes "query_safe s"
  shows "CHR ''&'' \<notin> set s" and "CHR ''#'' \<notin> set s" and "form_decode s = s"
    and "filter (\<lambda>c. \<not> is_tab_or_newline c) s = s"
proof -
  from assms have a: "\<forall>c \<in> set s. c \<noteq> CHR ''&'' \<and> c \<noteq> CHR ''#'' \<and> c \<noteq> CHR ''+'' \<and> c \<noteq> CHR ''%''
      \<and> c \<noteq> CHR 0x09 \<and> c \<noteq> CHR 0x0A \<and> c \<noteq> CHR 0x0D"
    by (simp add: query_safe_def list_all_iff)
  from a show "CHR ''&'' \<notin> set s" and "CHR ''#'' \<notin> set s"
    by blast+
  from a have "CHR ''+'' \<notin> set s" and "CHR ''%'' \<notin> set s"
    by blast+
  then show "form_decode s = s"
    by (rule form_decode_plain)
  from a have "\<forall>c \<in> set s. \<not> is_tab_or_newline c"
    by (simp add: is_tab_or_newline_def)
  then show "filter (\<lambda>c. \<not> is_tab_or_newline c) s = s"
    by (simp add: filter_id_conv)
qed

lemma query_safeI:
  assumes "\<And>c. c \<in> set s \<Longrightarrow> c \<notin> set [CHR ''&'', CHR ''#'', CHR ''+'', CHR ''%'', CHR 0x09, CHR 0x0A, CHR 0x0D]"
  shows "query_safe s"
  using assms unfolding query_safe_def list_all_iff by blast

lemma query_safe_append: "query_safe (a @ b) \<longleftrightarrow> query_safe a \<and> query_safe b"
  by (simp add: query_safe_def)

lemma split_on_nonempty: "split_on d s \<noteq> []"
  by (induction s) (auto split: list.splits)

lemma split_on_absent: "d \<notin> set s \<Longrightarrow> split_on d s = [s]"
  by (induction s) auto

lemma split_on_append: "split_on d (a @ d # b) = split_on d a @ split_on d b"
proof (induction a)
  case Nil
  then show ?case by simp
next
  case (Cons c a)
  obtain p ps where ps: "split_on d a = p # ps"
    using split_on_nonempty [of d a] by (cases "split_on d a") auto
  show ?case
    using Cons.IH by (simp add: ps)
qed

lemma parse_urlencoded_append:
  "parse_urlencoded (a @ CHR ''&'' # b) = parse_urlencoded a @ parse_urlencoded b"
  by (simp add: parse_urlencoded_def split_on_append)

lemma cut_at_first:
  "d \<notin> set a \<Longrightarrow> takeWhile (\<lambda>c. c \<noteq> d) (a @ d # b) = a"
  "d \<notin> set a \<Longrightarrow> dropWhile (\<lambda>c. c \<noteq> d) (a @ d # b) = d # b"
  by (induction a) auto

lemma cut_none:
  "d \<notin> set a \<Longrightarrow> takeWhile (\<lambda>c. c \<noteq> d) a = a"
  "d \<notin> set a \<Longrightarrow> dropWhile (\<lambda>c. c \<noteq> d) a = []"
  by (induction a) auto

lemma parse_pair_eq:
  "CHR ''='' \<notin> set name \<Longrightarrow> parse_pair (name @ CHR ''='' # v) = (form_decode name, form_decode v)"
  by (simp add: parse_pair_def cut_at_first)

lemma parse_urlencoded_one:
  assumes "CHR ''='' \<notin> set name" and "query_safe name" and "query_safe v"
  shows "parse_urlencoded (name @ CHR ''='' # v) = [(name, v)]"
proof -
  have "CHR ''&'' \<notin> set (name @ CHR ''='' # v)"
    using query_safe_facts(1) [OF assms(2)] query_safe_facts(1) [OF assms(3)] by simp
  then have "split_on CHR ''&'' (name @ CHR ''='' # v) = [name @ CHR ''='' # v]"
    by (rule split_on_absent)
  then show ?thesis
    using assms(1) query_safe_facts(3) [OF assms(2)] query_safe_facts(3) [OF assms(3)]
    by (simp add: parse_urlencoded_def parse_pair_eq)
qed

lemma parse_urlencoded_more:
  assumes "CHR ''='' \<notin> set name" and "query_safe name" and "query_safe v"
  shows "parse_urlencoded (name @ CHR ''='' # v @ CHR ''&'' # rest) = (name, v) # parse_urlencoded rest"
proof -
  have "parse_urlencoded ((name @ CHR ''='' # v) @ CHR ''&'' # rest)
          = parse_urlencoded (name @ CHR ''='' # v) @ parse_urlencoded rest"
    by (rule parse_urlencoded_append)
  then show ?thesis
    using parse_urlencoded_one [OF assms] by simp
qed

subsection \<open>Reading a text that starts with a given URL\<close>

lemma dropWhile_append_keep:
  "ys \<noteq> [] \<Longrightarrow> \<not> P (hd ys) \<Longrightarrow> dropWhile P (xs @ ys) = dropWhile P xs @ ys"
  by (induction xs) (auto simp: neq_Nil_conv)

lemma URL_preprocess_append:
  assumes "rest \<noteq> []" and "\<not> is_c0_control_or_space (hd rest)"
    and "\<not> is_c0_control_or_space (last rest)"
    and "filter (\<lambda>c. \<not> is_tab_or_newline c) rest = rest"
  shows "URL_preprocess (url @ rest)
           = filter (\<lambda>c. \<not> is_tab_or_newline c) (dropWhile is_c0_control_or_space url) @ rest"
proof -
  let ?u = "dropWhile is_c0_control_or_space url"
  have lead: "dropWhile is_c0_control_or_space (url @ rest) = ?u @ rest"
    using assms(1,2) by (rule dropWhile_append_keep)
  have "rev (?u @ rest) = rev rest @ rev ?u"
    by simp
  moreover have "rev rest \<noteq> []" and "\<not> is_c0_control_or_space (hd (rev rest))"
    using assms(1,3) by (simp_all add: hd_rev)
  ultimately have "dropWhile is_c0_control_or_space (rev (?u @ rest)) = rev (?u @ rest)"
    by (cases "rev rest") auto
  then show ?thesis
    unfolding URL_preprocess_def lead using assms(4) by simp
qed

lemma set_dropWhile_keeps: "x \<in> set xs \<Longrightarrow> \<not> P x \<Longrightarrow> x \<in> set (dropWhile P xs)"
  by (induction xs) auto

lemma in_front_text_iff:
  assumes "\<not> is_c0_control_or_space c"
  shows "c \<in> set (filter (\<lambda>c. \<not> is_tab_or_newline c) (dropWhile is_c0_control_or_space url))
           \<longleftrightarrow> c \<in> set url"
proof -
  have "\<not> is_tab_or_newline c"
    using assms by (auto simp: is_tab_or_newline_def is_c0_control_or_space_def)
  then show ?thesis
    using assms set_dropWhile_keeps [of c url is_c0_control_or_space]
    by (auto dest: set_dropWhileD)
qed

lemma URL_query_append_query:
  assumes "CHR ''#'' \<notin> set u" and "CHR ''#'' \<notin> set rest" and "CHR ''?'' \<in> set u"
  shows "URL_query (u @ rest) = URL_query u @ rest"
proof -
  from split_list_first [OF assms(3)]
  obtain a b where u: "u = a @ CHR ''?'' # b" and a: "CHR ''?'' \<notin> set a"
    by blast
  have "takeWhile (\<lambda>c. c \<noteq> CHR ''#'') (u @ rest) = u @ rest"
    and "takeWhile (\<lambda>c. c \<noteq> CHR ''#'') u = u"
    using assms(1,2) by (simp_all add: cut_none)
  moreover have "dropWhile (\<lambda>c. c \<noteq> CHR ''?'') (u @ rest) = CHR ''?'' # b @ rest"
    and "dropWhile (\<lambda>c. c \<noteq> CHR ''?'') u = CHR ''?'' # b"
    using cut_at_first(2) [OF a] by (simp_all add: u)
  ultimately show ?thesis
    unfolding URL_query_def Let_def using assms(3) by (simp only:) simp
qed

lemma URL_query_append_mark:
  assumes "CHR ''#'' \<notin> set u" and "CHR ''#'' \<notin> set rest" and "CHR ''?'' \<notin> set u"
  shows "URL_query (u @ CHR ''?'' # rest) = rest" and "URL_query u = []"
proof -
  have "takeWhile (\<lambda>c. c \<noteq> CHR ''#'') (u @ CHR ''?'' # rest) = u @ CHR ''?'' # rest"
    using assms(1,2) by (simp add: cut_none)
  moreover have "dropWhile (\<lambda>c. c \<noteq> CHR ''?'') (u @ CHR ''?'' # rest) = CHR ''?'' # rest"
    using assms(3) by (rule cut_at_first(2))
  ultimately show "URL_query (u @ CHR ''?'' # rest) = rest"
    unfolding URL_query_def Let_def by (simp only:) simp
  have "CHR ''?'' \<notin> set (takeWhile (\<lambda>c. c \<noteq> CHR ''#'') u)"
    using assms(3) by (auto dest: set_takeWhileD)
  then show "URL_query u = []"
    by (simp add: URL_query_def)
qed

lemma parse_urlencoded_empty: "parse_urlencoded [] = []"
  by (simp add: parse_urlencoded_def)

subsection \<open>Deleting the signature\<close>

lemma sig_match_no_start: "\<not> startsWith s ''&sig='' \<Longrightarrow> sig_match s = None"
  by (simp add: sig_match_def)

lemma replace_sig_other: "c \<noteq> CHR ''&'' \<Longrightarrow> replace_sig (c # s) = c # replace_sig s"
  by (simp add: replace_sig.simps(2) sig_match_def startsWith_def)

lemma replace_sig_amp_other:
  "c \<noteq> CHR ''s'' \<Longrightarrow> replace_sig (CHR ''&'' # c # s) = CHR ''&'' # replace_sig (c # s)"
  by (simp add: replace_sig.simps(2) sig_match_def startsWith_def)

lemma replace_sig_amp_free: "CHR ''&'' \<notin> set a \<Longrightarrow> replace_sig (a @ b) = a @ replace_sig b"
  by (induction a) (auto simp: replace_sig_other)

lemma replace_sig_skip:
  assumes "\<And>k. k < length a \<Longrightarrow> \<not> startsWith (drop k a @ b) ''&sig=''"
  shows "replace_sig (a @ b) = a @ replace_sig b"
  using assms
proof (induction a)
  case Nil
  then show ?case by simp
next
  case (Cons c a)
  have "\<not> startsWith ((c # a) @ b) ''&sig=''"
    using Cons.prems [of 0] by simp
  then have "replace_sig ((c # a) @ b) = c # replace_sig (a @ b)"
    by (simp add: replace_sig.simps(2) sig_match_no_start)
  moreover have "replace_sig (a @ b) = a @ replace_sig b"
  proof (rule Cons.IH)
    fix k assume "k < length a"
    then show "\<not> startsWith (drop k a @ b) ''&sig=''"
      using Cons.prems [of "Suc k"] by simp
  qed
  ultimately show ?case
    by simp
qed

lemma replace_sig_url:
  assumes "indexOf url ''&sig='' = - 1" and "b \<noteq> []" and "hd b \<in> set ''?&''"
  shows "replace_sig (url @ b) = url @ replace_sig b"
proof (rule replace_sig_skip)
  fix k assume k: "k < length url"
  show "\<not> startsWith (drop k url @ b) ''&sig=''"
  proof
    assume "startsWith (drop k url @ b) ''&sig=''"
    then obtain t where t: "drop k url @ b = ''&sig='' @ t"
      unfolding startsWith_iff by blast
    then obtain us where "drop k url = ''&sig='' @ us \<and> us @ b = t
        \<or> drop k url @ us = ''&sig='' \<and> b = us @ t"
      unfolding append_eq_append_conv2 by blast
    then show False
    proof
      assume "drop k url = ''&sig='' @ us \<and> us @ b = t"
      then have "url = take k url @ ''&sig='' @ us"
        by (metis append_take_drop_id)
      with assms(1) show False
        unfolding indexOf_absent by blast
    next
      assume c: "drop k url @ us = ''&sig='' \<and> b = us @ t"
      have n: "drop k url \<noteq> []"
        using k by simp
      show False
      proof (cases "us = []")
        case True
        with c have "url = take k url @ ''&sig='' @ []"
          by (metis append_Nil2 append_take_drop_id)
        with assms(1) show False
          unfolding indexOf_absent by blast
      next
        case False
        with c have "hd b = hd us"
          by simp
        moreover from c n False have "hd us \<in> set ''sig=''"
          by (auto simp: append_eq_Cons_conv)
        ultimately show False
          using assms(3) by auto
      qed
    qed
  qed
qed

lemma replace_sig_signature:
  assumes "2 \<le> length d" and "list_all is_word_char d"
  shows "replace_sig (''&sig='' @ d) = []"
proof -
  from assms(1) obtain x y ws where d: "d = x # y # ws"
    by (cases d; cases "tl d") auto
  from assms(2) have w: "is_word_char x" "is_word_char y" "\<forall>c \<in> set ws. is_word_char c"
    by (simp_all add: d list_all_iff)
  from w(1) have x: "x \<noteq> CHR ''&''"
    by (auto simp: is_word_char_def)
  have "dropWhile is_word_char (y # ws) = []"
    using w(2,3) by simp
  moreover have "takeWhile is_word_char (y # ws) \<noteq> []"
    using w(2) by simp
  ultimately have "sig_match (''&sig='' @ d) = Some []"
    using x by (simp add: sig_match_def startsWith_def d)
  then show ?thesis
    by (simp add: replace_sig.simps(2))
qed

subsection \<open>Characters of the appended values\<close>

lemma word_char_facts:
  assumes "is_word_char c"
  shows "c \<notin> set [CHR ''&'', CHR ''#'', CHR ''+'', CHR ''%'', CHR 0x09, CHR 0x0A, CHR 0x0D]"
    and "\<not> is_c0_control_or_space c"
  using assms unfolding is_word_char_def is_c0_control_or_space_def by auto

lemma query_safe_word: "list_all is_word_char d \<Longrightarrow> query_safe d"
  using word_char_facts(1) by (intro query_safeI) (simp add: list_all_iff)

lemma base64url_char_mem: "d < 64 \<Longrightarrow> base64url_char d \<in> set base64url_alphabet"
  unfolding base64url_char_def by (rule nth_mem) (simp add: base64url_alphabet_def)

lemma base64url_chars: "c \<in> set (base64url bs) \<Longrightarrow> c \<in> set base64url_alphabet"
proof (induction bs arbitrary: c rule: base64url.induct)
  case (1 a b c' rest)
  have "unat a div 4 < 64" "unat a mod 4 * 16 + unat b div 16 < 64"
       "unat b mod 16 * 4 + unat c' div 64 < 64" "unat c' mod 64 < 64"
    using unat_byte_less [of a] unat_byte_less [of b] unat_byte_less [of c'] by simp_all
  with 1 show ?case
    using base64url_char_mem by auto
next
  case (2 a b)
  have "unat a div 4 < 64" "unat a mod 4 * 16 + unat b div 16 < 64" "unat b mod 16 * 4 < 64"
    using unat_byte_less [of a] unat_byte_less [of b] by simp_all
  with 2 show ?case
    using base64url_char_mem by auto
next
  case (3 a)
  have "unat a div 4 < 64" "unat a mod 4 * 16 < 64"
    using unat_byte_less [of a] by simp_all
  with 3 show ?case
    using base64url_char_mem by auto
next
  case 4
  then show ?case by simp
qed

lemma query_safe_base64url: "query_safe (base64url bs)"
proof (rule query_safeI)
  fix c assume "c \<in> set (base64url bs)"
  then have "c \<in> set base64url_alphabet"
    by (rule base64url_chars)
  then show "c \<notin> set [CHR ''&'', CHR ''#'', CHR ''+'', CHR ''%'', CHR 0x09, CHR 0x0A, CHR 0x0D]"
    unfolding base64url_alphabet_def by auto
qed

lemma query_safe_expires: "query_safe (expires_or_empty e)"
proof (rule query_safeI)
  fix c assume c: "c \<in> set (expires_or_empty e)"
  have "c \<in> set ''-0123456789''"
  proof (cases e)
    case None
    with c show ?thesis by (simp add: expires_or_empty_def)
  next
    case (Some n)
    with c have "c \<in> set (Number_toString n)"
      by (cases "n = 0") (simp_all add: expires_or_empty_def)
    then show ?thesis
      by (rule Number_toString_chars)
  qed
  then show "c \<notin> set [CHR ''&'', CHR ''#'', CHR ''+'', CHR ''%'', CHR 0x09, CHR 0x0A, CHR 0x0D]"
    by auto
qed

lemma query_safe_toUpperCase: "query_safe s \<Longrightarrow> query_safe (toUpperCase s)"
proof (rule query_safeI)
  fix c assume s: "query_safe s" and "c \<in> set (toUpperCase s)"
  then obtain c' where c': "c' \<in> set s" and c: "c = toUpperCase_char c'"
    by (auto simp: toUpperCase_def)
  from s c' have "c' \<notin> set [CHR ''&'', CHR ''#'', CHR ''+'', CHR ''%'', CHR 0x09, CHR 0x0A, CHR 0x0D]"
    by (simp add: query_safe_def list_all_iff)
  moreover have "c = c' \<or> c \<in> set ''ABCDEFGHIJKLMNOPQRSTUVWXYZ''"
    unfolding c by (rule toUpperCase_char_cases)
  ultimately show "c \<notin> set [CHR ''&'', CHR ''#'', CHR ''+'', CHR ''%'', CHR 0x09, CHR 0x0A, CHR 0x0D]"
    by auto
qed

lemma query_safe_comma: "query_safe (CHR '','' # s) \<longleftrightarrow> query_safe s"
  by (simp add: query_safe_def)

lemma query_safe_empty: "query_safe []"
  by (simp add: query_safe_def)

lemma query_safe_join: "list_all query_safe ms \<Longrightarrow> query_safe (join '','' ms)"
  by (induction ms rule: induct_list012)
     (simp_all add: query_safe_append query_safe_comma query_safe_empty)

subsection \<open>The signed text, read back\<close>

lemma attributes_parse:
  assumes "query_safe E" and "query_safe I" and "query_safe M" and "query_safe R" and "query_safe D"
  shows "parse_urlencoded
           (''expires='' @ E @ ''&ip='' @ I @ ''&method='' @ M @ ''&r='' @ R @ ''&sig='' @ D)
         = [(''expires'', E), (''ip'', I), (''method'', M), (''r'', R), (''sig'', D)]"
proof -
  have n: "query_safe ''expires''" "query_safe ''ip''" "query_safe ''method''" "query_safe ''r''"
    "query_safe ''sig''"
    by (simp_all add: query_safe_def)
  have 5: "parse_urlencoded (''sig'' @ CHR ''='' # D) = [(''sig'', D)]"
    by (rule parse_urlencoded_one) (simp_all add: n assms)
  have 4: "parse_urlencoded (''r'' @ CHR ''='' # R @ CHR ''&'' # ''sig'' @ CHR ''='' # D)
             = (''r'', R) # parse_urlencoded (''sig'' @ CHR ''='' # D)"
    by (rule parse_urlencoded_more) (simp_all add: n assms)
  have 3: "parse_urlencoded (''method'' @ CHR ''='' # M @ CHR ''&'' # ''r'' @ CHR ''='' # R @ CHR ''&'' # ''sig'' @ CHR ''='' # D)
             = (''method'', M) # parse_urlencoded (''r'' @ CHR ''='' # R @ CHR ''&'' # ''sig'' @ CHR ''='' # D)"
    by (rule parse_urlencoded_more) (simp_all add: n assms)
  have 2: "parse_urlencoded (''ip'' @ CHR ''='' # I @ CHR ''&'' # ''method'' @ CHR ''='' # M @ CHR ''&'' # ''r'' @ CHR ''='' # R @ CHR ''&'' # ''sig'' @ CHR ''='' # D)
             = (''ip'', I) # parse_urlencoded (''method'' @ CHR ''='' # M @ CHR ''&'' # ''r'' @ CHR ''='' # R @ CHR ''&'' # ''sig'' @ CHR ''='' # D)"
    by (rule parse_urlencoded_more) (simp_all add: n assms)
  have 1: "parse_urlencoded (''expires'' @ CHR ''='' # E @ CHR ''&'' # ''ip'' @ CHR ''='' # I @ CHR ''&'' # ''method'' @ CHR ''='' # M @ CHR ''&'' # ''r'' @ CHR ''='' # R @ CHR ''&'' # ''sig'' @ CHR ''='' # D)
             = (''expires'', E) # parse_urlencoded (''ip'' @ CHR ''='' # I @ CHR ''&'' # ''method'' @ CHR ''='' # M @ CHR ''&'' # ''r'' @ CHR ''='' # R @ CHR ''&'' # ''sig'' @ CHR ''='' # D)"
    by (rule parse_urlencoded_more) (simp_all add: n assms)
  show ?thesis
    using 1 2 3 4 5 by simp
qed

lemma signed_params:
  assumes url: "CHR ''#'' \<notin> set url"
    and safe: "query_safe E" "query_safe I" "query_safe M" "query_safe R"
    and d: "2 \<le> length D" "list_all is_word_char D"
  shows "parse_urlencoded (URL_query (URL_preprocess
           (url @ (if indexOf url ''?'' = - 1 then ''?'' else ''&'')
              @ ''expires='' @ E @ ''&ip='' @ I @ ''&method='' @ M @ ''&r='' @ R @ ''&sig='' @ D)))
         = params_in_front url
             @ [(''expires'', E), (''ip'', I), (''method'', M), (''r'', R), (''sig'', D)]"
proof -
  define attrs where
    "attrs = ''expires='' @ E @ ''&ip='' @ I @ ''&method='' @ M @ ''&r='' @ R @ ''&sig='' @ D"
  define u where
    "u = filter (\<lambda>c. \<not> is_tab_or_newline c) (dropWhile is_c0_control_or_space url)"
  have sd: "query_safe D"
    using d(2) by (rule query_safe_word)
  from d(1) have dn: "D \<noteq> []"
    by auto
  then have "last D \<in> set D"
    by simp
  with d(2) have "is_word_char (last D)"
    by (simp add: list_all_iff)
  then have last: "\<not> is_c0_control_or_space (last attrs)"
    unfolding attrs_def using dn by (simp add: word_char_facts(2))
  have "filter (\<lambda>c. \<not> is_tab_or_newline c) E = E"
    and "filter (\<lambda>c. \<not> is_tab_or_newline c) I = I"
    and "filter (\<lambda>c. \<not> is_tab_or_newline c) M = M"
    and "filter (\<lambda>c. \<not> is_tab_or_newline c) R = R"
    and "filter (\<lambda>c. \<not> is_tab_or_newline c) D = D"
    using safe sd by (simp_all add: query_safe_facts(4))
  then have keep: "filter (\<lambda>c. \<not> is_tab_or_newline c) attrs = attrs"
    unfolding attrs_def by (simp add: is_tab_or_newline_def)
  have nofrag: "CHR ''#'' \<notin> set attrs"
    unfolding attrs_def using safe sd by (simp add: query_safe_facts(2))
  have ne: "attrs \<noteq> []"
    unfolding attrs_def by simp
  have "CHR ''#'' \<in> set u \<longleftrightarrow> CHR ''#'' \<in> set url"
    unfolding u_def by (rule in_front_text_iff) (simp add: is_c0_control_or_space_def)
  with url have ufrag: "CHR ''#'' \<notin> set u"
    by blast
  have umark: "CHR ''?'' \<in> set u \<longleftrightarrow> CHR ''?'' \<in> set url"
    unfolding u_def by (rule in_front_text_iff) (simp add: is_c0_control_or_space_def)
  have five: "parse_urlencoded attrs
                = [(''expires'', E), (''ip'', I), (''method'', M), (''r'', R), (''sig'', D)]"
    unfolding attrs_def using safe sd by (rule attributes_parse)
  have pre: "URL_preprocess (url @ c # attrs) = u @ c # attrs"
    if "\<not> is_c0_control_or_space c" and "\<not> is_tab_or_newline c" for c
    unfolding u_def using that last keep ne by (intro URL_preprocess_append) simp_all
  have front: "params_in_front url = parse_urlencoded (URL_query u)"
    by (simp add: params_in_front_def u_def)
  have "parse_urlencoded (URL_query (URL_preprocess
          (url @ (if indexOf url ''?'' = - 1 then ''?'' else ''&'') @ attrs)))
        = params_in_front url @ parse_urlencoded attrs"
  proof (cases "CHR ''?'' \<in> set url")
    case True
    then have p: "(if indexOf url ''?'' = - 1 then ''?'' else ''&'') @ attrs = CHR ''&'' # attrs"
      by (simp add: indexOf_char_absent)
    have 1: "URL_preprocess (url @ CHR ''&'' # attrs) = u @ CHR ''&'' # attrs"
      by (rule pre) (simp_all add: is_c0_control_or_space_def is_tab_or_newline_def)
    have "CHR ''#'' \<notin> set (CHR ''&'' # attrs)"
      using nofrag by simp
    moreover from True umark have "CHR ''?'' \<in> set u"
      by blast
    ultimately have 2: "URL_query (u @ CHR ''&'' # attrs) = URL_query u @ CHR ''&'' # attrs"
      using ufrag by (intro URL_query_append_query)
    show ?thesis
      unfolding p 1 2 front by (rule parse_urlencoded_append)
  next
    case False
    then have p: "(if indexOf url ''?'' = - 1 then ''?'' else ''&'') @ attrs = CHR ''?'' # attrs"
      by (simp add: indexOf_char_absent)
    have 1: "URL_preprocess (url @ CHR ''?'' # attrs) = u @ CHR ''?'' # attrs"
      by (rule pre) (simp_all add: is_c0_control_or_space_def is_tab_or_newline_def)
    from False umark have um: "CHR ''?'' \<notin> set u"
      by blast
    have 2: "URL_query (u @ CHR ''?'' # attrs) = attrs" and 3: "URL_query u = []"
      by (rule URL_query_append_mark [OF ufrag nofrag um])+
    show ?thesis
      unfolding p 1 2 3 front by (simp add: parse_urlencoded_empty)
  qed
  then show ?thesis
    unfolding five unfolding attrs_def .
qed

lemma signed_replace:
  assumes url: "indexOf url ''&sig='' = - 1"
    and safe: "query_safe E" "query_safe I" "query_safe M" "query_safe R"
    and d: "2 \<le> length D" "list_all is_word_char D"
  shows "replace_sig
           (url @ (if indexOf url ''?'' = - 1 then ''?'' else ''&'')
              @ ''expires='' @ E @ ''&ip='' @ I @ ''&method='' @ M @ ''&r='' @ R @ ''&sig='' @ D)
         = url @ (if indexOf url ''?'' = - 1 then ''?'' else ''&'')
             @ ''expires='' @ E @ ''&ip='' @ I @ ''&method='' @ M @ ''&r='' @ R"
proof -
  let ?p = "if indexOf url ''?'' = - 1 then ''?'' else ''&''"
  have amp: "CHR ''&'' \<notin> set E" "CHR ''&'' \<notin> set I" "CHR ''&'' \<notin> set M" "CHR ''&'' \<notin> set R"
    using safe by (simp_all add: query_safe_facts(1))
  have 5: "replace_sig (''&sig='' @ D) = []"
    using d by (rule replace_sig_signature)
  have 4: "replace_sig (''&r='' @ R @ ''&sig='' @ D) = ''&r='' @ R"
    using 5 amp(4) by (simp add: replace_sig_amp_other replace_sig_other replace_sig_amp_free)
  have 3: "replace_sig (''&method='' @ M @ ''&r='' @ R @ ''&sig='' @ D) = ''&method='' @ M @ ''&r='' @ R"
    using 4 amp(3) by (simp add: replace_sig_amp_other replace_sig_other replace_sig_amp_free)
  have 2: "replace_sig (''&ip='' @ I @ ''&method='' @ M @ ''&r='' @ R @ ''&sig='' @ D)
             = ''&ip='' @ I @ ''&method='' @ M @ ''&r='' @ R"
    using 3 amp(2) by (simp add: replace_sig_amp_other replace_sig_other replace_sig_amp_free)
  have 1: "replace_sig (''expires='' @ E @ ''&ip='' @ I @ ''&method='' @ M @ ''&r='' @ R @ ''&sig='' @ D)
             = ''expires='' @ E @ ''&ip='' @ I @ ''&method='' @ M @ ''&r='' @ R"
    using 2 amp(1) by (simp add: replace_sig_other replace_sig_amp_free)
  have 0: "replace_sig (?p @ ''expires='' @ E @ ''&ip='' @ I @ ''&method='' @ M @ ''&r='' @ R @ ''&sig='' @ D)
             = ?p @ ''expires='' @ E @ ''&ip='' @ I @ ''&method='' @ M @ ''&r='' @ R"
    using 1 by (simp add: replace_sig_other replace_sig_amp_other)
  have "replace_sig (url @ ?p @ ''expires='' @ E @ ''&ip='' @ I @ ''&method='' @ M @ ''&r='' @ R @ ''&sig='' @ D)
          = url @ replace_sig (?p @ ''expires='' @ E @ ''&ip='' @ I @ ''&method='' @ M @ ''&r='' @ R @ ''&sig='' @ D)"
    using url by (intro replace_sig_url) simp_all
  then show ?thesis
    unfolding 0 .
qed

subsection \<open>\<^verbatim>\<open>verify\<close> after \<^verbatim>\<open>sign\<close>\<close>

lemma signatureData_safe:
  assumes "signable_options options"
  shows "query_safe (expires_or_empty (SignatureData.expires (sign_signatureData this now rnd options)))"
    and "query_safe (string_or_empty (SignatureData.ipAddress (sign_signatureData this now rnd options)))"
    and "query_safe (string_or_empty (SignatureData.method (sign_signatureData this now rnd options)))"
    and "query_safe (r (sign_signatureData this now rnd options))"
proof -
  show "query_safe (expires_or_empty (SignatureData.expires (sign_signatureData this now rnd options)))"
    by (rule query_safe_expires)
  show "query_safe (string_or_empty (SignatureData.ipAddress (sign_signatureData this now rnd options)))"
    using assms
    by (auto simp: signable_options_def sign_signatureData_def string_or_empty_def query_safe_empty)
  show "query_safe (string_or_empty (SignatureData.method (sign_signatureData this now rnd options)))"
    using assms
    by (auto simp: signable_options_def sign_signatureData_def string_or_empty_def query_safe_empty
        query_safe_toUpperCase query_safe_join split: option.splits method_option.splits)
  show "query_safe (r (sign_signatureData this now rnd options))"
    by (simp add: sign_signatureData_def query_safe_base64url)
qed

lemma digest_okE:
  assumes "digest_ok rt this data"
  obtains d where "hash_call rt this data = Inr d" and "2 \<le> length d" and "list_all is_word_char d"
  using assms unfolding digest_ok_def by (cases "hash_call rt this data") auto

lemma map_of_after: "map_of xs k = None \<Longrightarrow> map_of (xs @ ys) k = map_of ys k"
  by (simp add: map_add_def)

lemma parseInt_expires_or_empty:
  "parseInt (if truthy (Some (expires_or_empty e)) then expires_or_empty e else ''0'')
     = Some (case e of None \<Rightarrow> 0 | Some n \<Rightarrow> n)"
proof (cases e)
  case None
  then show ?thesis
    by (simp add: expires_or_empty_def truthy_def parseInt_zero)
next
  case (Some n)
  then show ?thesis
    by (cases "n = 0")
       (simp_all add: expires_or_empty_def truthy_def parseInt_zero parseInt_Number_toString
          Number_toString_nonempty)
qed

lemma extractUrlData_sign:
  assumes sign: "sign rt this now rnd url options = Inr signedUrl"
    and parses: "URL_parses rt signedUrl"
    and digest: "digest_ok rt this (sign_payload url (sign_signatureData this now rnd options))"
    and url: "signable_url url"
    and opts: "signable_options options"
  obtains data d where "extractUrlData rt signedUrl = Inr data"
    and "hash_call rt this (sign_payload url (sign_signatureData this now rnd options)) = Inr d"
    and "urlWithoutSignature data = sign_payload url (sign_signatureData this now rnd options)"
    and "signature (signatureData data) = d"
    and "SignatureData.ipAddress (signatureData data)
           = Some (string_or_empty (SignatureData.ipAddress (sign_signatureData this now rnd options)))"
    and "SignatureData.method (signatureData data)
           = Some (string_or_empty (SignatureData.method (sign_signatureData this now rnd options)))"
    and "SignatureData.expires (signatureData data)
           = Some (case SignatureData.expires (sign_signatureData this now rnd options) of
                     None \<Rightarrow> 0 | Some n \<Rightarrow> n)"
proof -
  define sd where "sd = sign_signatureData this now rnd options"
  define E where "E = expires_or_empty (SignatureData.expires sd)"
  define I where "I = string_or_empty (SignatureData.ipAddress sd)"
  define M where "M = string_or_empty (SignatureData.method sd)"
  define R where "R = r sd"
  define P where "P = (if indexOf url ''?'' = - 1 then ''?'' else ''&'')"
  have safe: "query_safe E" "query_safe I" "query_safe M" "query_safe R"
    unfolding E_def I_def M_def R_def sd_def by (rule signatureData_safe [OF opts])+
  have payload: "sign_payload url sd
      = url @ P @ ''expires='' @ E @ ''&ip='' @ I @ ''&method='' @ M @ ''&r='' @ R"
    by (simp add: sign_payload_def E_def I_def M_def R_def P_def)
  from digest obtain d where d: "hash_call rt this (sign_payload url sd) = Inr d"
    "2 \<le> length d" "list_all is_word_char d"
    unfolding sd_def [symmetric] by (rule digest_okE)
  from sign d(1) have "signedUrl = sign_payload url sd @ ''&sig='' @ d"
    by (simp add: sign_def sd_def [symmetric])
  then have signedUrl: "signedUrl
      = url @ P @ ''expires='' @ E @ ''&ip='' @ I @ ''&method='' @ M @ ''&r='' @ R @ ''&sig='' @ d"
    by (simp only: payload append_assoc)
  from url have u: "CHR ''#'' \<notin> set url" "indexOf url ''&sig='' = - 1"
    and own: "map_of (params_in_front url) ''expires'' = None"
      "map_of (params_in_front url) ''ip'' = None"
      "map_of (params_in_front url) ''method'' = None"
      "map_of (params_in_front url) ''sig'' = None"
    by (simp_all add: signable_url_def searchParams_get_def)
  have params: "parse_urlencoded (URL_query (URL_preprocess signedUrl))
      = params_in_front url @ [(''expires'', E), (''ip'', I), (''method'', M), (''r'', R), (''sig'', d)]"
    unfolding signedUrl P_def by (rule signed_params [OF u(1) safe d(2,3)])
  have replaced: "replace_sig signedUrl = sign_payload url sd"
    unfolding signedUrl payload P_def by (rule signed_replace [OF u(2) safe d(2,3)])
  define ps where "ps = parse_urlencoded (URL_query (URL_preprocess signedUrl))"
  have get: "map_of ps ''expires'' = Some E" "map_of ps ''ip'' = Some I"
    "map_of ps ''method'' = Some M" "map_of ps ''sig'' = Some d"
    unfolding ps_def params by (simp_all add: map_add_def own)
  have new: "URL_new rt signedUrl = Inr \<lparr>searchParams = ps\<rparr>"
    using parses by (simp add: URL_new_def ps_def)
  define data where "data =
     \<lparr>urlWithoutSignature = sign_payload url sd,
      signatureData =
        \<lparr>SignatureData.method = Some M,
         expires = Some (case SignatureData.expires sd of None \<Rightarrow> 0 | Some n \<Rightarrow> n),
         ipAddress = Some I, r = string_or_empty (map_of ps ''r''), signature = d\<rparr>\<rparr>"
  have "parseInt (if truthy (Some E) then E else ''0'')
          = Some (case SignatureData.expires sd of None \<Rightarrow> 0 | Some n \<Rightarrow> n)"
    unfolding E_def by (rule parseInt_expires_or_empty)
  then have pe: "truthy (Some E)
        \<Longrightarrow> parseInt E = Some (case SignatureData.expires sd of None \<Rightarrow> 0 | Some n \<Rightarrow> n)"
      "\<not> truthy (Some E)
        \<Longrightarrow> parseInt ''0'' = Some (case SignatureData.expires sd of None \<Rightarrow> 0 | Some n \<Rightarrow> n)"
    by (simp_all split: if_splits)
  have "extractUrlData rt signedUrl = Inr data"
    unfolding extractUrlData_def new
    by (simp add: searchParams_get_def get string_or_empty_def replaced data_def pe)
  then show thesis
    by (rule that [unfolded sd_def [symmetric]])
       (simp_all add: data_def d(1) I_def M_def)
qed

lemma ipAddress_signed:
  "string_or_empty (SignatureData.ipAddress (sign_signatureData this now rnd options))
     = string_or_empty (SignOptions.ipAddress options)"
  by (auto simp: sign_signatureData_def string_or_empty_def truthy_def split: option.splits)

lemma method_signed:
  "string_or_empty (SignatureData.method (sign_signatureData this now rnd options))
     = (case SignOptions.method options of
          None \<Rightarrow> []
        | Some (Method m) \<Rightarrow> toUpperCase m
        | Some (Methods ms) \<Rightarrow> toUpperCase (join '','' ms))"
  by (auto simp: sign_signatureData_def string_or_empty_def toUpperCase_def
      split: option.splits method_option.splits)

text \<open>
  What \<^verbatim>\<open>verify\<close> answers for a URL that \<^verbatim>\<open>sign\<close> has just produced, in every context
  and at every time.
\<close>

lemma verify_sign:
  assumes sign: "sign rt this now rnd url options = Inr signedUrl"
    and parses: "URL_parses rt signedUrl"
    and digest: "digest_ok rt this (sign_payload url (sign_signatureData this now rnd options))"
    and url: "signable_url url"
    and opts: "signable_options options"
  shows "verify rt this now' signedUrl context =
     (if string_or_empty (SignatureData.ipAddress (sign_signatureData this now rnd options)) \<noteq> []
           \<and> VerifyOptions.ipAddress context
               \<noteq> Some (string_or_empty (SignatureData.ipAddress (sign_signatureData this now rnd options)))
      then Inl BlackholedSignatureError
      else if string_or_empty (SignatureData.method (sign_signatureData this now rnd options)) \<noteq> []
           \<and> truthy (VerifyOptions.method context)
           \<and> indexOf (string_or_empty (SignatureData.method (sign_signatureData this now rnd options)))
                 (toUpperCase (the (VerifyOptions.method context))) = - 1
      then Inl BlackholedSignatureError
      else if (case SignatureData.expires (sign_signatureData this now rnd options) of
                 None \<Rightarrow> False | Some e \<Rightarrow> e \<noteq> 0 \<and> e < now')
      then Inl ExpiredSignatureError
      else Inr True)"
proof -
  define sd where "sd = sign_signatureData this now rnd options"
  from extractUrlData_sign [OF sign parses digest url opts]
  obtain data d where data: "extractUrlData rt signedUrl = Inr data"
    and d: "hash_call rt this (sign_payload url sd) = Inr d"
    and f: "urlWithoutSignature data = sign_payload url sd"
      "signature (signatureData data) = d"
      "SignatureData.ipAddress (signatureData data) = Some (string_or_empty (SignatureData.ipAddress sd))"
      "SignatureData.method (signatureData data) = Some (string_or_empty (SignatureData.method sd))"
      "SignatureData.expires (signatureData data)
         = Some (case SignatureData.expires sd of None \<Rightarrow> 0 | Some n \<Rightarrow> n)"
    unfolding sd_def by blast
  have valid: "isValidURLSignature rt this (sign_payload url sd) d = Inr True"
    by (simp add: isValidURLSignature_def d)
  have op: "strict_equals (method_operand m (VerifyOptions.method context)) (JNumber (- 1))
      \<longleftrightarrow> truthy (VerifyOptions.method context)
          \<and> indexOf m (toUpperCase (the (VerifyOptions.method context))) = - 1" for m
    by (simp add: method_operand_def)
  have tm: "truthy (Some m) \<longleftrightarrow> m \<noteq> []" for m
    by (simp add: truthy_def)
  show ?thesis
    unfolding verify_def data sd_def [symmetric]
    by (simp only: sum.case Let_def f valid op tm option.sel if_False if_True
        not_True_eq_False not_False_eq_True)
       (auto simp: truthy_def split: option.splits)
qed

lemma method_check_passes:
  assumes "method_matches options ctx"
  shows "\<not> (string_or_empty (SignatureData.method (sign_signatureData this now rnd options)) \<noteq> []
           \<and> truthy (VerifyOptions.method ctx)
           \<and> indexOf (string_or_empty (SignatureData.method (sign_signatureData this now rnd options)))
                 (toUpperCase (the (VerifyOptions.method ctx))) = - 1)"
proof (cases "SignOptions.method options")
  case None
  then show ?thesis
    by (simp add: method_signed)
next
  case (Some mo)
  show ?thesis
  proof (cases mo)
    case (Method m)
    with Some assms obtain cm where cm: "VerifyOptions.method ctx = Some cm"
      and eq: "toUpperCase cm = toUpperCase m"
      by (auto simp: method_matches_def split: option.splits)
    have "indexOf (toUpperCase m) (toUpperCase cm) = 0"
      unfolding eq by (rule indexOf_self)
    then show ?thesis
      by (simp add: method_signed Some Method cm)
  next
    case (Methods ms)
    with Some assms obtain cm where cm: "VerifyOptions.method ctx = Some cm"
      and mem: "toUpperCase cm \<in> set (map toUpperCase ms)"
      by (auto simp: method_matches_def split: option.splits)
    from join_contains [OF mem]
    obtain a b where "join '','' (map toUpperCase ms) = a @ toUpperCase cm @ b"
      by blast
    then have "indexOf (toUpperCase (join '','' ms)) (toUpperCase cm) \<noteq> - 1"
      unfolding indexOf_absent toUpperCase_join by blast
    then show ?thesis
      by (simp add: method_signed Some Methods cm)
  qed
qed

lemma ip_check_passes:
  assumes "ip_matches options ctx"
  shows "\<not> (string_or_empty (SignatureData.ipAddress (sign_signatureData this now rnd options)) \<noteq> []
           \<and> VerifyOptions.ipAddress ctx
               \<noteq> Some (string_or_empty (SignatureData.ipAddress (sign_signatureData this now rnd options))))"
  unfolding ipAddress_signed using assms
  by (auto simp: ip_matches_def truthy_def string_or_empty_def split: option.splits)

lemma expiry_check_passes:
  assumes "not_expired sd now'"
  shows "\<not> (case SignatureData.expires sd of None \<Rightarrow> False | Some e \<Rightarrow> e \<noteq> 0 \<and> e < now')"
  using assms by (auto simp: not_expired_def split: option.splits)

lemma verify_decision:
  assumes "extractUrlData rt url = Inr data"
  shows "verify rt this now url ctx =
     (if ip_binding_fails data ctx then Inl BlackholedSignatureError
      else if method_allow_fails data ctx then Inl BlackholedSignatureError
      else if expiry_passed data now then Inl ExpiredSignatureError
      else digest_comparison rt this data)"
proof -
  have ip: "truthy (SignatureData.ipAddress (signatureData data))
        \<and> (\<not> truthy (VerifyOptions.ipAddress ctx)
             \<or> SignatureData.ipAddress (signatureData data) \<noteq> VerifyOptions.ipAddress ctx)
      \<longleftrightarrow> ip_binding_fails data ctx"
    by (auto simp: ip_binding_fails_def truthy_def split: option.splits)
  have me: "truthy (SignatureData.method (signatureData data))
        \<and> strict_equals
             (method_operand (the (SignatureData.method (signatureData data)))
                (VerifyOptions.method ctx))
             (JNumber (- 1))
      \<longleftrightarrow> method_allow_fails data ctx"
    by (auto simp: method_allow_fails_def method_operand_def truthy_def split: option.splits)
  have ex: "SignatureData.expires (signatureData data) \<noteq> None
        \<and> SignatureData.expires (signatureData data) \<noteq> Some 0
        \<and> the (SignatureData.expires (signatureData data)) < now
      \<longleftrightarrow> expiry_passed data now"
    by (auto simp: expiry_passed_def split: option.splits)
  have di: "(case isValidURLSignature rt this (urlWithoutSignature data) (signature (signatureData data)) of
               Inl e \<Rightarrow> Inl e
             | Inr ok \<Rightarrow> if \<not> ok then Inl MismatchSignatureError else Inr True)
      = digest_comparison rt this data"
    by (simp add: isValidURLSignature_def digest_comparison_def split: sum.splits)
  show ?thesis
    unfolding verify_def assms by (simp only: sum.case Let_def ip me ex di)
qed

lemma verify_sign_method:
  assumes s: "sign rt this now rnd url options = Inr signedUrl"
    "URL_parses rt signedUrl"
    "digest_ok rt this (sign_payload url (sign_signatureData this now rnd options))"
    "signable_url url" "signable_options options"
    and c: "ip_matches options ctx"
    "not_expired (sign_signatureData this now rnd options) now'"
    and m: "SignOptions.method options = Some (Method allowed)"
    "VerifyOptions.method ctx = Some cm" "cm \<noteq> []" "allowed \<noteq> []"
  shows "verify rt this now' signedUrl ctx =
           (if indexOf (toUpperCase allowed) (toUpperCase cm) = - 1
            then Inl BlackholedSignatureError else Inr True)"
proof -
  have a: "string_or_empty (SignatureData.method (sign_signatureData this now rnd options))
             = toUpperCase allowed"
    by (simp add: method_signed m(1))
  show ?thesis
    unfolding verify_sign [OF s] a
    using ip_check_passes [OF c(1), of this now rnd] expiry_check_passes [OF c(2)] m(2,3,4)
    by (auto simp: truthy_def toUpperCase_empty)
qed

section \<open>The example runtime at work\<close>

lemma example_hash_call:
  "hash_call example_runtime example_signer data
     = Inr (hex_of_bytes [3, of_nat (length data) + 3])"
  by (simp add: hash_call_def generateSignature_def isProvidedKey_def truthy_def
      isValidAlgorithm_def digest_hex_def update_def createHmac_def example_runtime_def
      example_signer_def SignUrl_new_def add.commute)

lemma example_digest_ok: "digest_ok example_runtime example_signer data"
proof -
  have "list_all is_word_char (hex_of_bytes [3, of_nat (length data) + 3])"
    unfolding list_all_iff using hex_of_bytes_chars hex_char_is_word by blast
  then show ?thesis
    by (simp add: digest_ok_def example_hash_call length_hex_of_bytes)
qed

lemma example_sign:
  "sign example_runtime example_signer now rnd url options
     = Inr (sign_payload url (sign_signatureData example_signer now rnd options)
            @ ''&sig='' @ hex_of_bytes [3, of_nat (length (sign_payload url
                (sign_signatureData example_signer now rnd options))) + 3])"
  by (simp add: sign_def Let_def example_hash_call)

lemma example_parses_iff: "URL_parses example_runtime s \<longleftrightarrow> has_scheme (URL_preprocess s)"
  by (simp add: URL_parses_def example_runtime_def)

lemmas text_eval = startsWith_def indexOf_def toUpperCase_def toUpperCase_char_def
  digit_char_def digits_of.simps Number_toString_def hex_digit_def hex_of_bytes_def
  base64url_char_def base64url_alphabet_def

lemmas url_eval = is_c0_control_or_space_def is_tab_or_newline_def URL_preprocess_def
  is_ascii_alpha_def is_scheme_char_def has_scheme_def URL_query_def is_hex_digit_def
  is_digit_of_radix_def digit_value_def form_decode_def parse_pair_def parse_urlencoded_def
  searchParams_get_def

lemmas payload_eval = sign_signatureData_def expires_or_empty_def string_or_empty_def
  sign_payload_def truthy_def example_signer_def SignUrl_new_def example_random_def

lemmas parse_eval = startsWith_def is_StrWhiteSpaceChar_def is_digit_of_radix_def digit_value_def
  digits_value_def parseInt_def

lemmas replace_eval = replace_sig.simps(2) sig_match_def startsWith_def is_word_char_def

lemma example_url_signable: "signable_url ''http://x/y''"
  by (simp add: signable_url_def params_in_front_def url_eval text_eval)

lemma example_get_payload:
  "sign_payload ''http://x/y''
     (sign_signatureData example_signer 1000 example_random
        \<lparr>SignOptions.method = Some (Method ''GET''), ttl = None,
         expires = Some 1700000000000, ipAddress = None\<rparr>)
   = ''http://x/y?expires=1700000000000&ip=&method=GET&r=AQIDBAUGBwgJCgsMDQ4PEA''"
  by (simp add: text_eval payload_eval)

lemma example_get_sign:
  "sign example_runtime example_signer 1000 example_random ''http://x/y''
     \<lparr>SignOptions.method = Some (Method ''GET''), ttl = None,
      expires = Some 1700000000000, ipAddress = None\<rparr>
   = Inr ''http://x/y?expires=1700000000000&ip=&method=GET&r=AQIDBAUGBwgJCgsMDQ4PEA&sig=034b''"
  unfolding example_sign example_get_payload by (simp add: hex_of_bytes_def hex_digit_def)

lemma example_get_parses:
  "URL_parses example_runtime
     ''http://x/y?expires=1700000000000&ip=&method=GET&r=AQIDBAUGBwgJCgsMDQ4PEA&sig=034b''"
  unfolding example_parses_iff by (simp add: url_eval startsWith_def)

lemma example_get_params:
  "parse_urlencoded (URL_query (URL_preprocess
     ''http://x/y?expires=1700000000000&ip=&method=GET&r=AQIDBAUGBwgJCgsMDQ4PEA&sig=034b''))
   = [(''expires'', ''1700000000000''), (''ip'', ''''), (''method'', ''GET''),
      (''r'', ''AQIDBAUGBwgJCgsMDQ4PEA''), (''sig'', ''034b'')]"
  by (simp add: url_eval)

lemma example_get_replace:
  "replace_sig ''http://x/y?expires=1700000000000&ip=&method=GET&r=AQIDBAUGBwgJCgsMDQ4PEA&sig=034b''
   = ''http://x/y?expires=1700000000000&ip=&method=GET&r=AQIDBAUGBwgJCgsMDQ4PEA''"
  by (simp add: replace_eval)

lemma example_get_extract:
  "extractUrlData example_runtime
     ''http://x/y?expires=1700000000000&ip=&method=GET&r=AQIDBAUGBwgJCgsMDQ4PEA&sig=034b''
   = Inr \<lparr>urlWithoutSignature =
            ''http://x/y?expires=1700000000000&ip=&method=GET&r=AQIDBAUGBwgJCgsMDQ4PEA'',
          signatureData =
            \<lparr>SignatureData.method = Some ''GET'', expires = Some 1700000000000,
             ipAddress = Some '''', r = ''AQIDBAUGBwgJCgsMDQ4PEA'', signature = ''034b''\<rparr>\<rparr>"
  unfolding extractUrlData_def URL_new_def
  by (simp add: example_get_parses example_get_params example_get_replace
      searchParams_get_def truthy_def string_or_empty_def parse_eval)

lemma example_get_digest:
  "hash_call example_runtime example_signer
     ''http://x/y?expires=1700000000000&ip=&method=GET&r=AQIDBAUGBwgJCgsMDQ4PEA'' = Inr ''034b''"
  unfolding example_hash_call by (simp add: hex_of_bytes_def hex_digit_def)

lemma example_bound_params:
  "parse_urlencoded (URL_query (URL_preprocess
     ''http://x/y?expires=5&ip=1.2.3.4&method=&r=AQIDBAUGBwgJCgsMDQ4PEA&sig=0343''))
   = [(''expires'', ''5''), (''ip'', ''1.2.3.4''), (''method'', ''''),
      (''r'', ''AQIDBAUGBwgJCgsMDQ4PEA''), (''sig'', ''0343'')]"
  by (simp add: url_eval)

lemma example_bound_replace:
  "replace_sig ''http://x/y?expires=5&ip=1.2.3.4&method=&r=AQIDBAUGBwgJCgsMDQ4PEA&sig=0343''
   = ''http://x/y?expires=5&ip=1.2.3.4&method=&r=AQIDBAUGBwgJCgsMDQ4PEA''"
  by (simp add: replace_eval)

lemma example_bound_parses:
  "URL_parses example_runtime
     ''http://x/y?expires=5&ip=1.2.3.4&method=&r=AQIDBAUGBwgJCgsMDQ4PEA&sig=0343''"
  unfolding example_parses_iff by (simp add: url_eval startsWith_def)

lemma example_bound_extract:
  "extractUrlData example_runtime
     ''http://x/y?expires=5&ip=1.2.3.4&method=&r=AQIDBAUGBwgJCgsMDQ4PEA&sig=0343''
   = Inr \<lparr>urlWithoutSignature = ''http://x/y?expires=5&ip=1.2.3.4&method=&r=AQIDBAUGBwgJCgsMDQ4PEA'',
          signatureData =
            \<lparr>SignatureData.method = Some '''', expires = Some 5, ipAddress = Some ''1.2.3.4'',
             r = ''AQIDBAUGBwgJCgsMDQ4PEA'', signature = ''0343''\<rparr>\<rparr>"
  unfolding extractUrlData_def URL_new_def
  by (simp add: example_bound_parses example_bound_params example_bound_replace
      searchParams_get_def truthy_def string_or_empty_def parse_eval)

lemma example_relative_payload:
  "sign_payload ''/example''
     (sign_signatureData example_signer 1000 example_random
        \<lparr>SignOptions.method = None, ttl = None, expires = None, ipAddress = None\<rparr>)
   = ''/example?expires=&ip=&method=&r=AQIDBAUGBwgJCgsMDQ4PEA''"
  by (simp add: text_eval payload_eval)

lemma example_relative_sign:
  "sign example_runtime example_signer 1000 example_random ''/example''
     \<lparr>SignOptions.method = None, ttl = None, expires = None, ipAddress = None\<rparr>
   = Inr ''/example?expires=&ip=&method=&r=AQIDBAUGBwgJCgsMDQ4PEA&sig=0339''"
  unfolding example_sign example_relative_payload by (simp add: hex_of_bytes_def hex_digit_def)

lemma example_relative_fails:
  "\<not> URL_parses example_runtime ''/example?expires=&ip=&method=&r=AQIDBAUGBwgJCgsMDQ4PEA&sig=0339''"
  unfolding example_parses_iff by (simp add: url_eval startsWith_def)

lemma example_other_sig_payload:
  "sign_payload ''http://x/y?a=1&sig=abc''
     (sign_signatureData example_signer 1000 example_random
        \<lparr>SignOptions.method = None, ttl = None, expires = None, ipAddress = None\<rparr>)
   = ''http://x/y?a=1&sig=abc&expires=&ip=&method=&r=AQIDBAUGBwgJCgsMDQ4PEA''"
  by (simp add: text_eval payload_eval)

lemma example_other_sig_sign:
  "sign example_runtime example_signer 1000 example_random ''http://x/y?a=1&sig=abc''
     \<lparr>SignOptions.method = None, ttl = None, expires = None, ipAddress = None\<rparr>
   = Inr ''http://x/y?a=1&sig=abc&expires=&ip=&method=&r=AQIDBAUGBwgJCgsMDQ4PEA&sig=0347''"
  unfolding example_sign example_other_sig_payload by (simp add: hex_of_bytes_def hex_digit_def)

lemma example_other_sig_params:
  "parse_urlencoded (URL_query (URL_preprocess
     ''http://x/y?a=1&sig=abc&expires=&ip=&method=&r=AQIDBAUGBwgJCgsMDQ4PEA&sig=0347''))
   = [(''a'', ''1''), (''sig'', ''abc''), (''expires'', ''''), (''ip'', ''''), (''method'', ''''),
      (''r'', ''AQIDBAUGBwgJCgsMDQ4PEA''), (''sig'', ''0347'')]"
  by (simp add: url_eval)

lemma example_other_sig_replace:
  "replace_sig ''http://x/y?a=1&sig=abc&expires=&ip=&method=&r=AQIDBAUGBwgJCgsMDQ4PEA&sig=0347''
   = ''http://x/y?a=1&expires=&ip=&method=&r=AQIDBAUGBwgJCgsMDQ4PEA''"
  by (simp add: replace_eval)

lemma example_other_sig_parses:
  "URL_parses example_runtime
     ''http://x/y?a=1&sig=abc&expires=&ip=&method=&r=AQIDBAUGBwgJCgsMDQ4PEA&sig=0347''"
  unfolding example_parses_iff by (simp add: url_eval startsWith_def)

lemma example_other_sig_extract:
  "extractUrlData example_runtime
     ''http://x/y?a=1&sig=abc&expires=&ip=&method=&r=AQIDBAUGBwgJCgsMDQ4PEA&sig=0347''
   = Inr \<lparr>urlWithoutSignature = ''http://x/y?a=1&expires=&ip=&method=&r=AQIDBAUGBwgJCgsMDQ4PEA'',
          signatureData =
            \<lparr>SignatureData.method = Some '''', expires = Some 0, ipAddress = Some '''',
             r = ''AQIDBAUGBwgJCgsMDQ4PEA'', signature = ''abc''\<rparr>\<rparr>"
  unfolding extractUrlData_def URL_new_def
  by (simp add: example_other_sig_parses example_other_sig_params example_other_sig_replace
      searchParams_get_def truthy_def string_or_empty_def parse_eval)

lemma example_other_sig_digest:
  "hash_call example_runtime example_signer
     ''http://x/y?a=1&expires=&ip=&method=&r=AQIDBAUGBwgJCgsMDQ4PEA'' = Inr ''033f''"
  unfolding example_hash_call by (simp add: hex_of_bytes_def hex_digit_def)

lemma example_widget_payload:
  "sign_payload ''http://x/y''
     (sign_signatureData example_signer 1000 example_random
        \<lparr>SignOptions.method = Some (Method ''WIDGET''), ttl = None, expires = None,
         ipAddress = None\<rparr>)
   = ''http://x/y?expires=&ip=&method=WIDGET&r=AQIDBAUGBwgJCgsMDQ4PEA''"
  by (simp add: text_eval payload_eval)

lemma example_widget_sign:
  "sign example_runtime example_signer 1000 example_random ''http://x/y''
     \<lparr>SignOptions.method = Some (Method ''WIDGET''), ttl = None, expires = None,
      ipAddress = None\<rparr>
   = Inr ''http://x/y?expires=&ip=&method=WIDGET&r=AQIDBAUGBwgJCgsMDQ4PEA&sig=0341''"
  unfolding example_sign example_widget_payload by (simp add: hex_of_bytes_def hex_digit_def)

lemma example_widget_parses:
  "URL_parses example_runtime
     ''http://x/y?expires=&ip=&method=WIDGET&r=AQIDBAUGBwgJCgsMDQ4PEA&sig=0341''"
  unfolding example_parses_iff by (simp add: url_eval startsWith_def)

text \<open>
  URLs that bring a parameter of a reserved name, or a fragment, of their own.
\<close>

lemma example_own_method_payload:
  "sign_payload ''http://x/y?method=''
     (sign_signatureData example_signer 1000 example_random
        \<lparr>SignOptions.method = Some (Method ''GET''), ttl = None, expires = None,
         ipAddress = None\<rparr>)
   = ''http://x/y?method=&expires=&ip=&method=GET&r=AQIDBAUGBwgJCgsMDQ4PEA''"
  by (simp add: text_eval payload_eval)

lemma example_own_method_sign:
  "sign example_runtime example_signer 1000 example_random ''http://x/y?method=''
     \<lparr>SignOptions.method = Some (Method ''GET''), ttl = None, expires = None,
      ipAddress = None\<rparr>
   = Inr ''http://x/y?method=&expires=&ip=&method=GET&r=AQIDBAUGBwgJCgsMDQ4PEA&sig=0346''"
  unfolding example_sign example_own_method_payload by (simp add: hex_of_bytes_def hex_digit_def)

lemma example_own_method_params:
  "parse_urlencoded (URL_query (URL_preprocess
     ''http://x/y?method=&expires=&ip=&method=GET&r=AQIDBAUGBwgJCgsMDQ4PEA&sig=0346''))
   = [(''method'', ''''), (''expires'', ''''), (''ip'', ''''), (''method'', ''GET''),
      (''r'', ''AQIDBAUGBwgJCgsMDQ4PEA''), (''sig'', ''0346'')]"
  by (simp add: url_eval)

lemma example_own_method_replace:
  "replace_sig ''http://x/y?method=&expires=&ip=&method=GET&r=AQIDBAUGBwgJCgsMDQ4PEA&sig=0346''
   = ''http://x/y?method=&expires=&ip=&method=GET&r=AQIDBAUGBwgJCgsMDQ4PEA''"
  by (simp add: replace_eval)

lemma example_own_method_parses:
  "URL_parses example_runtime
     ''http://x/y?method=&expires=&ip=&method=GET&r=AQIDBAUGBwgJCgsMDQ4PEA&sig=0346''"
  unfolding example_parses_iff by (simp add: url_eval startsWith_def)

lemma example_own_method_extract:
  "extractUrlData example_runtime
     ''http://x/y?method=&expires=&ip=&method=GET&r=AQIDBAUGBwgJCgsMDQ4PEA&sig=0346''
   = Inr \<lparr>urlWithoutSignature =
            ''http://x/y?method=&expires=&ip=&method=GET&r=AQIDBAUGBwgJCgsMDQ4PEA'',
          signatureData =
            \<lparr>SignatureData.method = Some '''', expires = Some 0, ipAddress = Some '''',
             r = ''AQIDBAUGBwgJCgsMDQ4PEA'', signature = ''0346''\<rparr>\<rparr>"
  unfolding extractUrlData_def URL_new_def
  by (simp add: example_own_method_parses example_own_method_params example_own_method_replace
      searchParams_get_def truthy_def string_or_empty_def parse_eval)

lemma example_own_method_digest:
  "hash_call example_runtime example_signer
     ''http://x/y?method=&expires=&ip=&method=GET&r=AQIDBAUGBwgJCgsMDQ4PEA'' = Inr ''0346''"
  unfolding example_hash_call by (simp add: hex_of_bytes_def hex_digit_def)

lemma example_getUser_payload:
  "sign_payload ''http://x/api?method=getUser''
     (sign_signatureData example_signer 1000 example_random
        \<lparr>SignOptions.method = Some (Method ''GET''), ttl = None, expires = None,
         ipAddress = None\<rparr>)
   = ''http://x/api?method=getUser&expires=&ip=&method=GET&r=AQIDBAUGBwgJCgsMDQ4PEA''"
  by (simp add: text_eval payload_eval)

lemma example_getUser_sign:
  "sign example_runtime example_signer 1000 example_random ''http://x/api?method=getUser''
     \<lparr>SignOptions.method = Some (Method ''GET''), ttl = None, expires = None,
      ipAddress = None\<rparr>
   = Inr ''http://x/api?method=getUser&expires=&ip=&method=GET&r=AQIDBAUGBwgJCgsMDQ4PEA&sig=034f''"
  unfolding example_sign example_getUser_payload by (simp add: hex_of_bytes_def hex_digit_def)

lemma example_getUser_params:
  "parse_urlencoded (URL_query (URL_preprocess
     ''http://x/api?method=getUser&expires=&ip=&method=GET&r=AQIDBAUGBwgJCgsMDQ4PEA&sig=034f''))
   = [(''method'', ''getUser''), (''expires'', ''''), (''ip'', ''''), (''method'', ''GET''),
      (''r'', ''AQIDBAUGBwgJCgsMDQ4PEA''), (''sig'', ''034f'')]"
  by (simp add: url_eval)

lemma example_getUser_replace:
  "replace_sig
     ''http://x/api?method=getUser&expires=&ip=&method=GET&r=AQIDBAUGBwgJCgsMDQ4PEA&sig=034f''
   = ''http://x/api?method=getUser&expires=&ip=&method=GET&r=AQIDBAUGBwgJCgsMDQ4PEA''"
  by (simp add: replace_eval)

lemma example_getUser_parses:
  "URL_parses example_runtime
     ''http://x/api?method=getUser&expires=&ip=&method=GET&r=AQIDBAUGBwgJCgsMDQ4PEA&sig=034f''"
  unfolding example_parses_iff by (simp add: url_eval startsWith_def)

lemma example_getUser_extract:
  "extractUrlData example_runtime
     ''http://x/api?method=getUser&expires=&ip=&method=GET&r=AQIDBAUGBwgJCgsMDQ4PEA&sig=034f''
   = Inr \<lparr>urlWithoutSignature =
            ''http://x/api?method=getUser&expires=&ip=&method=GET&r=AQIDBAUGBwgJCgsMDQ4PEA'',
          signatureData =
            \<lparr>SignatureData.method = Some ''getUser'', expires = Some 0, ipAddress = Some '''',
             r = ''AQIDBAUGBwgJCgsMDQ4PEA'', signature = ''034f''\<rparr>\<rparr>"
  unfolding extractUrlData_def URL_new_def
  by (simp add: example_getUser_parses example_getUser_params example_getUser_replace
      searchParams_get_def truthy_def string_or_empty_def parse_eval)

lemma example_own_expires_payload:
  "sign_payload ''http://x/y?expires=1''
     (sign_signatureData example_signer 1000 example_random
        \<lparr>SignOptions.method = None, ttl = None, expires = None, ipAddress = None\<rparr>)
   = ''http://x/y?expires=1&expires=&ip=&method=&r=AQIDBAUGBwgJCgsMDQ4PEA''"
  by (simp add: text_eval payload_eval)

lemma example_own_expires_sign:
  "sign example_runtime example_signer 1000 example_random ''http://x/y?expires=1''
     \<lparr>SignOptions.method = None, ttl = None, expires = None, ipAddress = None\<rparr>
   = Inr ''http://x/y?expires=1&expires=&ip=&method=&r=AQIDBAUGBwgJCgsMDQ4PEA&sig=0345''"
  unfolding example_sign example_own_expires_payload by (simp add: hex_of_bytes_def hex_digit_def)

lemma example_own_expires_params:
  "parse_urlencoded (URL_query (URL_preprocess
     ''http://x/y?expires=1&expires=&ip=&method=&r=AQIDBAUGBwgJCgsMDQ4PEA&sig=0345''))
   = [(''expires'', ''1''), (''expires'', ''''), (''ip'', ''''), (''method'', ''''),
      (''r'', ''AQIDBAUGBwgJCgsMDQ4PEA''), (''sig'', ''0345'')]"
  by (simp add: url_eval)

lemma example_own_expires_replace:
  "replace_sig ''http://x/y?expires=1&expires=&ip=&method=&r=AQIDBAUGBwgJCgsMDQ4PEA&sig=0345''
   = ''http://x/y?expires=1&expires=&ip=&method=&r=AQIDBAUGBwgJCgsMDQ4PEA''"
  by (simp add: replace_eval)

lemma example_own_expires_parses:
  "URL_parses example_runtime
     ''http://x/y?expires=1&expires=&ip=&method=&r=AQIDBAUGBwgJCgsMDQ4PEA&sig=0345''"
  unfolding example_parses_iff by (simp add: url_eval startsWith_def)

lemma example_own_expires_extract:
  "extractUrlData example_runtime
     ''http://x/y?expires=1&expires=&ip=&method=&r=AQIDBAUGBwgJCgsMDQ4PEA&sig=0345''
   = Inr \<lparr>urlWithoutSignature =
            ''http://x/y?expires=1&expires=&ip=&method=&r=AQIDBAUGBwgJCgsMDQ4PEA'',
          signatureData =
            \<lparr>SignatureData.method = Some '''', expires = Some 1, ipAddress = Some '''',
             r = ''AQIDBAUGBwgJCgsMDQ4PEA'', signature = ''0345''\<rparr>\<rparr>"
  unfolding extractUrlData_def URL_new_def
  by (simp add: example_own_expires_parses example_own_expires_params example_own_expires_replace
      searchParams_get_def truthy_def string_or_empty_def parse_eval)

lemma example_fragment_payload:
  "sign_payload ''http://x/y#top''
     (sign_signatureData example_signer 1000 example_random
        \<lparr>SignOptions.method = None, ttl = None, expires = None, ipAddress = None\<rparr>)
   = ''http://x/y#top?expires=&ip=&method=&r=AQIDBAUGBwgJCgsMDQ4PEA''"
  by (simp add: text_eval payload_eval)

lemma example_fragment_sign:
  "sign example_runtime example_signer 1000 example_random ''http://x/y#top''
     \<lparr>SignOptions.method = None, ttl = None, expires = None, ipAddress = None\<rparr>
   = Inr ''http://x/y#top?expires=&ip=&method=&r=AQIDBAUGBwgJCgsMDQ4PEA&sig=033f''"
  unfolding example_sign example_fragment_payload by (simp add: hex_of_bytes_def hex_digit_def)

lemma example_fragment_params:
  "parse_urlencoded (URL_query (URL_preprocess
     ''http://x/y#top?expires=&ip=&method=&r=AQIDBAUGBwgJCgsMDQ4PEA&sig=033f'')) = []"
  by (simp add: url_eval)

lemma example_fragment_replace:
  "replace_sig ''http://x/y#top?expires=&ip=&method=&r=AQIDBAUGBwgJCgsMDQ4PEA&sig=033f''
   = ''http://x/y#top?expires=&ip=&method=&r=AQIDBAUGBwgJCgsMDQ4PEA''"
  by (simp add: replace_eval)

lemma example_fragment_parses:
  "URL_parses example_runtime
     ''http://x/y#top?expires=&ip=&method=&r=AQIDBAUGBwgJCgsMDQ4PEA&sig=033f''"
  unfolding example_parses_iff by (simp add: url_eval startsWith_def)

lemma example_fragment_extract:
  "extractUrlData example_runtime
     ''http://x/y#top?expires=&ip=&method=&r=AQIDBAUGBwgJCgsMDQ4PEA&sig=033f''
   = Inr \<lparr>urlWithoutSignature =
            ''http://x/y#top?expires=&ip=&method=&r=AQIDBAUGBwgJCgsMDQ4PEA'',
          signatureData =
            \<lparr>SignatureData.method = Some '''', expires = Some 0, ipAddress = Some '''',
             r = '''', signature = ''''\<rparr>\<rparr>"
  unfolding extractUrlData_def URL_new_def
  by (simp add: example_fragment_parses example_fragment_params example_fragment_replace
      searchParams_get_def truthy_def string_or_empty_def parse_eval)

lemma example_fragment_digest:
  "hash_call example_runtime example_signer
     ''http://x/y#top?expires=&ip=&method=&r=AQIDBAUGBwgJCgsMDQ4PEA'' = Inr ''033f''"
  unfolding example_hash_call by (simp add: hex_of_bytes_def hex_digit_def)

section \<open>The properties\<close>

subsection \<open>Round trip\<close>

text \<open>
  C1. A URL that \<^verbatim>\<open>sign\<close> has produced verifies, under the conditions that the plain
  concatenation in \<^verbatim>\<open>sign\<close> and the parsing in \<^verbatim>\<open>verify\<close> need: the URL parser accepts
  the signed URL; the digest function returns at least two word characters for the
  signed text; the URL has no fragment, does not contain \<^verbatim>\<open>&sig=\<close> and has no
  parameter of its own named \<^verbatim>\<open>expires\<close>, \<^verbatim>\<open>ip\<close>, \<^verbatim>\<open>method\<close> or \<^verbatim>\<open>sig\<close>; the address
  and the methods of the options contain none of \<^verbatim>\<open>& # + %\<close>, tab and newline; the
  context carries the bound address, when one was bound, and a method that equals
  the signed method or one of the signed methods up to case; the time of
  verification is not after the resolved expiry; and the resolved expiry is a safe
  integer, so that its text in the URL is its decimal numeral (from \<open>10\<^sup>2\<^sup>1\<close> on
  JavaScript writes an exponent, of which \<^verbatim>\<open>parseInt\<close> reads the leading digits only).
  Then \<^verbatim>\<open>verify\<close> returns \<^verbatim>\<open>true\<close>.

  Without these conditions the round trip does not hold for every string, as the
  third theorem below computes, each time with nothing bound and no expiry: \<^verbatim>\<open>sign\<close>
  accepts the relative URL \<^verbatim>\<open>/example\<close>, and \<^verbatim>\<open>verify\<close> of the result raises the
  \<^verbatim>\<open>TypeError\<close> of \<^verbatim>\<open>new URL\<close>; for \<^verbatim>\<open>http://x/y?expires=1\<close> it reads the expiry 1
  of the URL itself and raises the expired error; for \<^verbatim>\<open>http://x/y#top\<close> the appended
  parameters end up in the fragment, no signature is read and it raises the mismatch
  error.
\<close>

theorem sign_verify_round_trip:
  assumes "sign rt this now rnd url options = Inr signedUrl"
    and "URL_parses rt signedUrl"
    and "digest_ok rt this (sign_payload url (sign_signatureData this now rnd options))"
    and "signable_url url"
    and "signable_options options"
    and "ip_matches options ctx"
    and "method_matches options ctx"
    and "not_expired (sign_signatureData this now rnd options) now'"
    and "expiry_safe (sign_signatureData this now rnd options)"
  shows "verify rt this now' signedUrl ctx = Inr True"
  unfolding verify_sign [OF assms(1-5)]
  using ip_check_passes [OF assms(6)] method_check_passes [OF assms(7)]
    expiry_check_passes [OF assms(8)]
  by (simp only: if_False)

theorem sign_verify_round_trip_witness:
  "sign example_runtime example_signer 1000 example_random ''http://x/y''
     \<lparr>SignOptions.method = Some (Method ''GET''), ttl = None,
      expires = Some 1700000000000, ipAddress = None\<rparr>
     = Inr ''http://x/y?expires=1700000000000&ip=&method=GET&r=AQIDBAUGBwgJCgsMDQ4PEA&sig=034b''
   \<and> verify example_runtime example_signer 1699999999999
       ''http://x/y?expires=1700000000000&ip=&method=GET&r=AQIDBAUGBwgJCgsMDQ4PEA&sig=034b''
       \<lparr>VerifyOptions.method = Some ''get'', ipAddress = None\<rparr> = Inr True"
proof -
  let ?options = "\<lparr>SignOptions.method = Some (Method ''GET''), ttl = None,
      expires = Some 1700000000000, ipAddress = None\<rparr>"
  let ?ctx = "\<lparr>VerifyOptions.method = Some ''get'', ipAddress = None\<rparr>"
  have o: "signable_options ?options"
    by (simp add: signable_options_def query_safe_def string_or_empty_def)
  have i: "ip_matches ?options ?ctx"
    by (simp add: ip_matches_def truthy_def)
  have m: "method_matches ?options ?ctx"
    by (simp add: method_matches_def toUpperCase_def toUpperCase_char_def)
  have e: "not_expired (sign_signatureData example_signer 1000 example_random ?options) 1699999999999"
    by (simp add: not_expired_def payload_eval)
  have s: "expiry_safe (sign_signatureData example_signer 1000 example_random ?options)"
    by (simp add: expiry_safe_def Number_isSafeInteger_def payload_eval)
  from sign_verify_round_trip [OF example_get_sign example_get_parses example_digest_ok
      example_url_signable o i m e s] example_get_sign
  show ?thesis
    by simp
qed

theorem sign_verify_round_trip_counterexample:
  "method_matches
       \<lparr>SignOptions.method = None, ttl = None, expires = None, ipAddress = None\<rparr>
       \<lparr>VerifyOptions.method = Some ''GET'', ipAddress = None\<rparr>
   \<and> ip_matches
       \<lparr>SignOptions.method = None, ttl = None, expires = None, ipAddress = None\<rparr>
       \<lparr>VerifyOptions.method = Some ''GET'', ipAddress = None\<rparr>
   \<and> not_expired
       (sign_signatureData example_signer 1000 example_random
          \<lparr>SignOptions.method = None, ttl = None, expires = None, ipAddress = None\<rparr>) 1000
   \<and> sign example_runtime example_signer 1000 example_random ''/example''
       \<lparr>SignOptions.method = None, ttl = None, expires = None, ipAddress = None\<rparr>
     = Inr ''/example?expires=&ip=&method=&r=AQIDBAUGBwgJCgsMDQ4PEA&sig=0339''
   \<and> verify example_runtime example_signer 1000
       ''/example?expires=&ip=&method=&r=AQIDBAUGBwgJCgsMDQ4PEA&sig=0339''
       \<lparr>VerifyOptions.method = Some ''GET'', ipAddress = None\<rparr>
     = Inl TypeError_InvalidURL
   \<and> sign example_runtime example_signer 1000 example_random ''http://x/y?expires=1''
       \<lparr>SignOptions.method = None, ttl = None, expires = None, ipAddress = None\<rparr>
     = Inr ''http://x/y?expires=1&expires=&ip=&method=&r=AQIDBAUGBwgJCgsMDQ4PEA&sig=0345''
   \<and> verify example_runtime example_signer 1000
       ''http://x/y?expires=1&expires=&ip=&method=&r=AQIDBAUGBwgJCgsMDQ4PEA&sig=0345''
       \<lparr>VerifyOptions.method = Some ''GET'', ipAddress = None\<rparr>
     = Inl ExpiredSignatureError
   \<and> sign example_runtime example_signer 1000 example_random ''http://x/y#top''
       \<lparr>SignOptions.method = None, ttl = None, expires = None, ipAddress = None\<rparr>
     = Inr ''http://x/y#top?expires=&ip=&method=&r=AQIDBAUGBwgJCgsMDQ4PEA&sig=033f''
   \<and> verify example_runtime example_signer 1000
       ''http://x/y#top?expires=&ip=&method=&r=AQIDBAUGBwgJCgsMDQ4PEA&sig=033f''
       \<lparr>VerifyOptions.method = Some ''GET'', ipAddress = None\<rparr>
     = Inl MismatchSignatureError"
proof -
  have "verify example_runtime example_signer 1000
       ''/example?expires=&ip=&method=&r=AQIDBAUGBwgJCgsMDQ4PEA&sig=0339''
       \<lparr>VerifyOptions.method = Some ''GET'', ipAddress = None\<rparr>
     = Inl TypeError_InvalidURL"
    unfolding verify_def extractUrlData_def URL_new_def
    by (simp add: example_relative_fails)
  moreover have "verify example_runtime example_signer 1000
       ''http://x/y?expires=1&expires=&ip=&method=&r=AQIDBAUGBwgJCgsMDQ4PEA&sig=0345''
       \<lparr>VerifyOptions.method = Some ''GET'', ipAddress = None\<rparr>
     = Inl ExpiredSignatureError"
    unfolding verify_decision [OF example_own_expires_extract]
    by (simp add: ip_binding_fails_def method_allow_fails_def expiry_passed_def)
  moreover have "verify example_runtime example_signer 1000
       ''http://x/y#top?expires=&ip=&method=&r=AQIDBAUGBwgJCgsMDQ4PEA&sig=033f''
       \<lparr>VerifyOptions.method = Some ''GET'', ipAddress = None\<rparr>
     = Inl MismatchSignatureError"
    unfolding verify_decision [OF example_fragment_extract]
    by (simp add: ip_binding_fails_def method_allow_fails_def expiry_passed_def
        digest_comparison_def example_fragment_digest)
  moreover have "not_expired
       (sign_signatureData example_signer 1000 example_random
          \<lparr>SignOptions.method = None, ttl = None, expires = None, ipAddress = None\<rparr>) 1000"
    by (simp add: not_expired_def payload_eval)
  ultimately show ?thesis
    by (simp add: example_relative_sign example_own_expires_sign example_fragment_sign
        method_matches_def ip_matches_def truthy_def)
qed

subsection \<open>The unsigned text that the parser reconstructs\<close>

text \<open>
  C2. \<^verbatim>\<open>extractUrlData\<close> is to give back, as \<^verbatim>\<open>urlWithoutSignature\<close>, exactly the
  text that \<^verbatim>\<open>sign\<close> hashed, by deleting the one signature parameter that \<^verbatim>\<open>sign\<close>
  appended. The regular expression \<^verbatim>\<open>/&sig=([^&]\w+)/g\<close> is neither anchored nor
  delimited: it deletes every \<^verbatim>\<open>&sig=\<close> followed by two or more characters, wherever
  it stands. For the URL \<^verbatim>\<open>http://x/y?a=1&sig=abc\<close> the signer hashes a text that
  contains \<^verbatim>\<open>&sig=abc\<close>, the parser reconstructs a text without it (and reads
  \<^verbatim>\<open>abc\<close> as the signature), and \<^verbatim>\<open>verify\<close> raises the mismatch error for a URL
  that was signed a moment before and not changed. In a path, \<^verbatim>\<open>&sig=bc\<close> is deleted
  from \<^verbatim>\<open>http://x/a&sig=bc/d\<close> as well.
\<close>

theorem extractUrlData_deletes_every_sig_match:
  "sign example_runtime example_signer 1000 example_random ''http://x/y?a=1&sig=abc''
     \<lparr>SignOptions.method = None, ttl = None, expires = None, ipAddress = None\<rparr>
     = Inr ''http://x/y?a=1&sig=abc&expires=&ip=&method=&r=AQIDBAUGBwgJCgsMDQ4PEA&sig=0347''
   \<and> sign_payload ''http://x/y?a=1&sig=abc''
       (sign_signatureData example_signer 1000 example_random
          \<lparr>SignOptions.method = None, ttl = None, expires = None, ipAddress = None\<rparr>)
     = ''http://x/y?a=1&sig=abc&expires=&ip=&method=&r=AQIDBAUGBwgJCgsMDQ4PEA''
   \<and> extractUrlData example_runtime
       ''http://x/y?a=1&sig=abc&expires=&ip=&method=&r=AQIDBAUGBwgJCgsMDQ4PEA&sig=0347''
     = Inr \<lparr>urlWithoutSignature = ''http://x/y?a=1&expires=&ip=&method=&r=AQIDBAUGBwgJCgsMDQ4PEA'',
            signatureData =
              \<lparr>SignatureData.method = Some '''', expires = Some 0, ipAddress = Some '''',
               r = ''AQIDBAUGBwgJCgsMDQ4PEA'', signature = ''abc''\<rparr>\<rparr>
   \<and> verify example_runtime example_signer 1000
       ''http://x/y?a=1&sig=abc&expires=&ip=&method=&r=AQIDBAUGBwgJCgsMDQ4PEA&sig=0347''
       \<lparr>VerifyOptions.method = None, ipAddress = None\<rparr>
     = Inl MismatchSignatureError
   \<and> replace_sig ''http://x/a&sig=bc/d'' = ''http://x/a/d''"
proof -
  have "verify example_runtime example_signer 1000
       ''http://x/y?a=1&sig=abc&expires=&ip=&method=&r=AQIDBAUGBwgJCgsMDQ4PEA&sig=0347''
       \<lparr>VerifyOptions.method = None, ipAddress = None\<rparr>
     = Inl MismatchSignatureError"
    unfolding verify_decision [OF example_other_sig_extract]
    by (simp add: ip_binding_fails_def method_allow_fails_def expiry_passed_def
        digest_comparison_def example_other_sig_digest)
  moreover have "replace_sig ''http://x/a&sig=bc/d'' = ''http://x/a/d''"
    by (simp add: replace_eval)
  ultimately show ?thesis
    by (simp only: example_other_sig_sign example_other_sig_payload example_other_sig_extract
        simp_thms)
qed

theorem extractUrlData_deletes_every_sig_match_witness:
  "verify example_runtime example_signer 1000
     ''http://x/y?a=1&sig=abc&expires=&ip=&method=&r=AQIDBAUGBwgJCgsMDQ4PEA&sig=0347''
     \<lparr>VerifyOptions.method = None, ipAddress = None\<rparr>
   \<noteq> Inr True"
  using extractUrlData_deletes_every_sig_match by simp

subsection \<open>The order of the checks\<close>

text \<open>
  C3. For every URL that the parser accepts, \<^verbatim>\<open>verify\<close> decides in this order: the
  address binding, the allowed methods, the expiry, the digest comparison; the first
  check that fails gives the error. In particular a URL that is both expired and bound
  to another address than the one of the context raises the black-holed error, not the
  expired error.
\<close>

theorem verify_check_order:
  assumes "extractUrlData rt url = Inr data"
  shows "verify rt this now url ctx =
           (if ip_binding_fails data ctx then Inl BlackholedSignatureError
            else if method_allow_fails data ctx then Inl BlackholedSignatureError
            else if expiry_passed data now then Inl ExpiredSignatureError
            else digest_comparison rt this data)
         \<and> (ip_binding_fails data ctx \<and> expiry_passed data now
              \<longrightarrow> verify rt this now url ctx = Inl BlackholedSignatureError)"
  using verify_decision [OF assms] by simp

theorem verify_check_order_witness:
  "extractUrlData example_runtime
     ''http://x/y?expires=5&ip=1.2.3.4&method=&r=AQIDBAUGBwgJCgsMDQ4PEA&sig=0343''
     = Inr \<lparr>urlWithoutSignature = ''http://x/y?expires=5&ip=1.2.3.4&method=&r=AQIDBAUGBwgJCgsMDQ4PEA'',
            signatureData =
              \<lparr>SignatureData.method = Some '''', expires = Some 5, ipAddress = Some ''1.2.3.4'',
               r = ''AQIDBAUGBwgJCgsMDQ4PEA'', signature = ''0343''\<rparr>\<rparr>
   \<and> verify example_runtime example_signer 10
       ''http://x/y?expires=5&ip=1.2.3.4&method=&r=AQIDBAUGBwgJCgsMDQ4PEA&sig=0343''
       \<lparr>VerifyOptions.method = Some ''GET'', ipAddress = Some ''5.6.7.8''\<rparr>
     = Inl BlackholedSignatureError
   \<and> verify example_runtime example_signer 10
       ''http://x/y?expires=5&ip=1.2.3.4&method=&r=AQIDBAUGBwgJCgsMDQ4PEA&sig=0343''
       \<lparr>VerifyOptions.method = Some ''GET'', ipAddress = Some ''1.2.3.4''\<rparr>
     = Inl ExpiredSignatureError"
proof -
  let ?data = "\<lparr>urlWithoutSignature = ''http://x/y?expires=5&ip=1.2.3.4&method=&r=AQIDBAUGBwgJCgsMDQ4PEA'',
            signatureData =
              \<lparr>SignatureData.method = Some '''', expires = Some 5, ipAddress = Some ''1.2.3.4'',
               r = ''AQIDBAUGBwgJCgsMDQ4PEA'', signature = ''0343''\<rparr>\<rparr>"
  have a: "ip_binding_fails ?data \<lparr>VerifyOptions.method = Some ''GET'', ipAddress = Some ''5.6.7.8''\<rparr>"
    and b: "\<not> ip_binding_fails ?data \<lparr>VerifyOptions.method = Some ''GET'', ipAddress = Some ''1.2.3.4''\<rparr>"
    and c: "\<not> method_allow_fails ?data \<lparr>VerifyOptions.method = Some ''GET'', ipAddress = Some ''1.2.3.4''\<rparr>"
    and d: "expiry_passed ?data 10"
    by (simp_all add: ip_binding_fails_def method_allow_fails_def expiry_passed_def)
  from verify_check_order [OF example_bound_extract, of example_signer 10
      "\<lparr>VerifyOptions.method = Some ''GET'', ipAddress = Some ''5.6.7.8''\<rparr>"]
    verify_check_order [OF example_bound_extract, of example_signer 10
      "\<lparr>VerifyOptions.method = Some ''GET'', ipAddress = Some ''1.2.3.4''\<rparr>"]
    a b c d example_bound_extract
  show ?thesis
    by simp
qed

subsection \<open>Method enforcement\<close>

text \<open>
  C4. Let a URL be signed with the method \<^verbatim>\<open>GET\<close>, under the conditions of the round
  trip (the signed URL parses, the digest is at least two word characters, the URL
  has no fragment, no \<^verbatim>\<open>&sig=\<close> and no parameter of its own named \<^verbatim>\<open>expires\<close>,
  \<^verbatim>\<open>ip\<close>, \<^verbatim>\<open>method\<close> or \<^verbatim>\<open>sig\<close>, the address is free of separators and the resolved
  expiry is a safe integer), in a context with the right address and before the
  expiry. Verifying it with the context method \<^verbatim>\<open>POST\<close> raises the black-holed error;
  verifying it with a context method that is \<^verbatim>\<open>GET\<close> in any casing returns \<^verbatim>\<open>true\<close>.

  For every URL this does not hold, because \<^verbatim>\<open>verify\<close> reads the first parameter of
  the name \<^verbatim>\<open>method\<close>, as the third theorem below computes: signed with \<^verbatim>\<open>GET\<close>, the
  URL \<^verbatim>\<open>http://x/y?method=\<close> verifies with the context method \<^verbatim>\<open>POST\<close>, and the URL
  \<^verbatim>\<open>http://x/api?method=getUser\<close> is black-holed with the context method \<^verbatim>\<open>get\<close>.
\<close>

theorem method_enforcement:
  assumes "sign rt this now rnd url options = Inr signedUrl"
    and "URL_parses rt signedUrl"
    and "digest_ok rt this (sign_payload url (sign_signatureData this now rnd options))"
    and "signable_url url" and "signable_options options"
    and "SignOptions.method options = Some (Method ''GET'')"
    and "ip_matches options ctx"
    and "not_expired (sign_signatureData this now rnd options) now'"
    and "expiry_safe (sign_signatureData this now rnd options)"
  shows "verify rt this now' signedUrl (ctx\<lparr>VerifyOptions.method := Some ''POST''\<rparr>)
           = Inl BlackholedSignatureError
         \<and> (toUpperCase cm = ''GET''
              \<longrightarrow> verify rt this now' signedUrl (ctx\<lparr>VerifyOptions.method := Some cm\<rparr>)
                    = Inr True)"
proof (intro conjI impI)
  have ip: "ip_matches options (ctx\<lparr>VerifyOptions.method := Some c\<rparr>)" for c
    using assms(7) by (simp add: ip_matches_def)
  have "verify rt this now' signedUrl (ctx\<lparr>VerifyOptions.method := Some ''POST''\<rparr>)
      = (if indexOf (toUpperCase ''GET'') (toUpperCase ''POST'') = - 1
         then Inl BlackholedSignatureError else Inr True)"
    by (rule verify_sign_method [OF assms(1-5) ip assms(8) assms(6)]) simp_all
  moreover have "indexOf (toUpperCase ''GET'') (toUpperCase ''POST'') = - 1"
    by (simp add: indexOf_def startsWith_def toUpperCase_def toUpperCase_char_def)
  ultimately show "verify rt this now' signedUrl (ctx\<lparr>VerifyOptions.method := Some ''POST''\<rparr>)
      = Inl BlackholedSignatureError"
    by simp
next
  assume u: "toUpperCase cm = ''GET''"
  then have n: "cm \<noteq> []"
    by (auto simp: toUpperCase_def)
  have ip: "ip_matches options (ctx\<lparr>VerifyOptions.method := Some cm\<rparr>)"
    using assms(7) by (simp add: ip_matches_def)
  have "verify rt this now' signedUrl (ctx\<lparr>VerifyOptions.method := Some cm\<rparr>)
      = (if indexOf (toUpperCase ''GET'') (toUpperCase cm) = - 1
         then Inl BlackholedSignatureError else Inr True)"
    using n by (intro verify_sign_method [OF assms(1-5) ip assms(8) assms(6)]) simp_all
  moreover have "toUpperCase ''GET'' = ''GET''"
    by (simp add: toUpperCase_def toUpperCase_char_def)
  ultimately show "verify rt this now' signedUrl (ctx\<lparr>VerifyOptions.method := Some cm\<rparr>)
      = Inr True"
    by (simp add: u indexOf_self)
qed

theorem method_enforcement_witness:
  "sign example_runtime example_signer 1000 example_random ''http://x/y''
     \<lparr>SignOptions.method = Some (Method ''GET''), ttl = None,
      expires = Some 1700000000000, ipAddress = None\<rparr>
     = Inr ''http://x/y?expires=1700000000000&ip=&method=GET&r=AQIDBAUGBwgJCgsMDQ4PEA&sig=034b''
   \<and> toUpperCase ''gEt'' = ''GET''
   \<and> verify example_runtime example_signer 2000
       ''http://x/y?expires=1700000000000&ip=&method=GET&r=AQIDBAUGBwgJCgsMDQ4PEA&sig=034b''
       \<lparr>VerifyOptions.method = Some ''POST'', ipAddress = None\<rparr>
     = Inl BlackholedSignatureError
   \<and> verify example_runtime example_signer 2000
       ''http://x/y?expires=1700000000000&ip=&method=GET&r=AQIDBAUGBwgJCgsMDQ4PEA&sig=034b''
       \<lparr>VerifyOptions.method = Some ''gEt'', ipAddress = None\<rparr>
     = Inr True"
proof -
  let ?options = "\<lparr>SignOptions.method = Some (Method ''GET''), ttl = None,
      expires = Some 1700000000000, ipAddress = None\<rparr>"
  let ?ctx = "\<lparr>VerifyOptions.method = None, ipAddress = None\<rparr>"
  have o: "signable_options ?options"
    by (simp add: signable_options_def query_safe_def string_or_empty_def)
  have m: "SignOptions.method ?options = Some (Method ''GET'')"
    by simp
  have i: "ip_matches ?options ?ctx"
    by (simp add: ip_matches_def truthy_def)
  have e: "not_expired (sign_signatureData example_signer 1000 example_random ?options) 2000"
    by (simp add: not_expired_def payload_eval)
  have s: "expiry_safe (sign_signatureData example_signer 1000 example_random ?options)"
    by (simp add: expiry_safe_def Number_isSafeInteger_def payload_eval)
  have u: "toUpperCase ''gEt'' = ''GET''"
    by (simp add: toUpperCase_def toUpperCase_char_def)
  from method_enforcement [OF example_get_sign example_get_parses example_digest_ok
      example_url_signable o m i e s, of "''gEt''"] u example_get_sign
  show ?thesis
    by simp
qed

theorem method_enforcement_counterexample:
  "sign example_runtime example_signer 1000 example_random ''http://x/y?method=''
     \<lparr>SignOptions.method = Some (Method ''GET''), ttl = None, expires = None,
      ipAddress = None\<rparr>
     = Inr ''http://x/y?method=&expires=&ip=&method=GET&r=AQIDBAUGBwgJCgsMDQ4PEA&sig=0346''
   \<and> verify example_runtime example_signer 2000
       ''http://x/y?method=&expires=&ip=&method=GET&r=AQIDBAUGBwgJCgsMDQ4PEA&sig=0346''
       \<lparr>VerifyOptions.method = Some ''POST'', ipAddress = None\<rparr>
     = Inr True
   \<and> sign example_runtime example_signer 1000 example_random ''http://x/api?method=getUser''
       \<lparr>SignOptions.method = Some (Method ''GET''), ttl = None, expires = None,
        ipAddress = None\<rparr>
     = Inr ''http://x/api?method=getUser&expires=&ip=&method=GET&r=AQIDBAUGBwgJCgsMDQ4PEA&sig=034f''
   \<and> verify example_runtime example_signer 2000
       ''http://x/api?method=getUser&expires=&ip=&method=GET&r=AQIDBAUGBwgJCgsMDQ4PEA&sig=034f''
       \<lparr>VerifyOptions.method = Some ''get'', ipAddress = None\<rparr>
     = Inl BlackholedSignatureError"
proof -
  have "verify example_runtime example_signer 2000
       ''http://x/y?method=&expires=&ip=&method=GET&r=AQIDBAUGBwgJCgsMDQ4PEA&sig=0346''
       \<lparr>VerifyOptions.method = Some ''POST'', ipAddress = None\<rparr>
     = Inr True"
    unfolding verify_decision [OF example_own_method_extract]
    by (simp add: ip_binding_fails_def method_allow_fails_def expiry_passed_def
        digest_comparison_def example_own_method_digest)
  moreover have "verify example_runtime example_signer 2000
       ''http://x/api?method=getUser&expires=&ip=&method=GET&r=AQIDBAUGBwgJCgsMDQ4PEA&sig=034f''
       \<lparr>VerifyOptions.method = Some ''get'', ipAddress = None\<rparr>
     = Inl BlackholedSignatureError"
    unfolding verify_decision [OF example_getUser_extract]
    by (simp add: ip_binding_fails_def method_allow_fails_def indexOf_def startsWith_def
        toUpperCase_def toUpperCase_char_def)
  ultimately show ?thesis
    by (simp only: example_own_method_sign example_getUser_sign simp_thms)
qed

subsection \<open>A context without a method\<close>

text \<open>
  C5. When the parsed URL carries allowed methods and the context carries no method
  (or the empty one), the operand \<^verbatim>\<open>(!options.method || ...)\<close> is the boolean
  \<^verbatim>\<open>true\<close>, which is not strictly equal to \<^verbatim>\<open>-1\<close>: the method check does not fail
  and \<^verbatim>\<open>verify\<close> goes on with the address binding decided, to the expiry and the
  digest comparison. For a URL that \<^verbatim>\<open>sign\<close> produced, with the right address and
  before the expiry, it then returns \<^verbatim>\<open>true\<close>, whatever methods were signed.
\<close>

theorem verify_without_context_method:
  "(extractUrlData rt url = Inr data
      \<and> truthy (SignatureData.method (signatureData data))
      \<and> \<not> truthy (VerifyOptions.method ctx)
    \<longrightarrow> method_operand (the (SignatureData.method (signatureData data)))
          (VerifyOptions.method ctx) = JBoolean True
        \<and> \<not> strict_equals (JBoolean True) (JNumber (- 1))
        \<and> verify rt this now url ctx =
            (if ip_binding_fails data ctx then Inl BlackholedSignatureError
             else if expiry_passed data now then Inl ExpiredSignatureError
             else digest_comparison rt this data))
   \<and> (sign rt this issued rnd base options = Inr signedUrl
      \<and> URL_parses rt signedUrl
      \<and> digest_ok rt this (sign_payload base (sign_signatureData this issued rnd options))
      \<and> signable_url base \<and> signable_options options
      \<and> ip_matches options ctx
      \<and> not_expired (sign_signatureData this issued rnd options) now
      \<and> \<not> truthy (VerifyOptions.method ctx)
    \<longrightarrow> verify rt this now signedUrl ctx = Inr True)"
proof (intro conjI impI)
  assume a: "extractUrlData rt url = Inr data
      \<and> truthy (SignatureData.method (signatureData data))
      \<and> \<not> truthy (VerifyOptions.method ctx)"
  then show "method_operand (the (SignatureData.method (signatureData data)))
      (VerifyOptions.method ctx) = JBoolean True"
    by (simp add: method_operand_def)
  show "\<not> strict_equals (JBoolean True) (JNumber (- 1))"
    by simp
  from a have "\<not> method_allow_fails data ctx"
    by (auto simp: method_allow_fails_def truthy_def split: option.splits)
  with a show "verify rt this now url ctx =
      (if ip_binding_fails data ctx then Inl BlackholedSignatureError
       else if expiry_passed data now then Inl ExpiredSignatureError
       else digest_comparison rt this data)"
    by (simp add: verify_decision)
next
  assume b: "sign rt this issued rnd base options = Inr signedUrl
      \<and> URL_parses rt signedUrl
      \<and> digest_ok rt this (sign_payload base (sign_signatureData this issued rnd options))
      \<and> signable_url base \<and> signable_options options
      \<and> ip_matches options ctx
      \<and> not_expired (sign_signatureData this issued rnd options) now
      \<and> \<not> truthy (VerifyOptions.method ctx)"
  then have s: "sign rt this issued rnd base options = Inr signedUrl"
    "URL_parses rt signedUrl"
    "digest_ok rt this (sign_payload base (sign_signatureData this issued rnd options))"
    "signable_url base" "signable_options options"
    by simp_all
  have v: "verify rt this now signedUrl ctx =
     (if string_or_empty (SignatureData.ipAddress (sign_signatureData this issued rnd options)) \<noteq> []
           \<and> VerifyOptions.ipAddress ctx
               \<noteq> Some (string_or_empty (SignatureData.ipAddress (sign_signatureData this issued rnd options)))
      then Inl BlackholedSignatureError
      else if string_or_empty (SignatureData.method (sign_signatureData this issued rnd options)) \<noteq> []
           \<and> truthy (VerifyOptions.method ctx)
           \<and> indexOf (string_or_empty (SignatureData.method (sign_signatureData this issued rnd options)))
                 (toUpperCase (the (VerifyOptions.method ctx))) = - 1
      then Inl BlackholedSignatureError
      else if (case SignatureData.expires (sign_signatureData this issued rnd options) of
                 None \<Rightarrow> False | Some e \<Rightarrow> e \<noteq> 0 \<and> e < now)
      then Inl ExpiredSignatureError
      else Inr True)"
    by (rule verify_sign [OF s])
  from b have c: "ip_matches options ctx"
    "not_expired (sign_signatureData this issued rnd options) now"
    "\<not> truthy (VerifyOptions.method ctx)"
    by simp_all
  show "verify rt this now signedUrl ctx = Inr True"
    unfolding v
    using ip_check_passes [OF c(1), of this issued rnd] expiry_check_passes [OF c(2)] c(3)
    by simp
qed

theorem verify_without_context_method_witness:
  "extractUrlData example_runtime
     ''http://x/y?expires=1700000000000&ip=&method=GET&r=AQIDBAUGBwgJCgsMDQ4PEA&sig=034b''
     = Inr \<lparr>urlWithoutSignature =
              ''http://x/y?expires=1700000000000&ip=&method=GET&r=AQIDBAUGBwgJCgsMDQ4PEA'',
            signatureData =
              \<lparr>SignatureData.method = Some ''GET'', expires = Some 1700000000000,
               ipAddress = Some '''', r = ''AQIDBAUGBwgJCgsMDQ4PEA'', signature = ''034b''\<rparr>\<rparr>
   \<and> sign example_runtime example_signer 1000 example_random ''http://x/y''
       \<lparr>SignOptions.method = Some (Method ''GET''), ttl = None,
        expires = Some 1700000000000, ipAddress = None\<rparr>
     = Inr ''http://x/y?expires=1700000000000&ip=&method=GET&r=AQIDBAUGBwgJCgsMDQ4PEA&sig=034b''
   \<and> verify example_runtime example_signer 2000
       ''http://x/y?expires=1700000000000&ip=&method=GET&r=AQIDBAUGBwgJCgsMDQ4PEA&sig=034b''
       \<lparr>VerifyOptions.method = None, ipAddress = None\<rparr>
     = Inr True"
proof -
  let ?options = "\<lparr>SignOptions.method = Some (Method ''GET''), ttl = None,
      expires = Some 1700000000000, ipAddress = None\<rparr>"
  let ?ctx = "\<lparr>VerifyOptions.method = None, ipAddress = None\<rparr>"
  let ?data = "\<lparr>urlWithoutSignature =
              ''http://x/y?expires=1700000000000&ip=&method=GET&r=AQIDBAUGBwgJCgsMDQ4PEA'',
            signatureData =
              \<lparr>SignatureData.method = Some ''GET'', expires = Some 1700000000000,
               ipAddress = Some '''', r = ''AQIDBAUGBwgJCgsMDQ4PEA'', signature = ''034b''\<rparr>\<rparr>"
  have o: "signable_options ?options"
    by (simp add: signable_options_def query_safe_def string_or_empty_def)
  have i: "ip_matches ?options ?ctx"
    by (simp add: ip_matches_def truthy_def)
  have e: "not_expired (sign_signatureData example_signer 1000 example_random ?options) 2000"
    by (simp add: not_expired_def payload_eval)
  have t: "truthy (SignatureData.method (signatureData ?data))"
    "\<not> truthy (VerifyOptions.method ?ctx)"
    by (simp_all add: truthy_def)
  from verify_without_context_method [where rt = example_runtime and this = example_signer
      and url = "''http://x/y?expires=1700000000000&ip=&method=GET&r=AQIDBAUGBwgJCgsMDQ4PEA&sig=034b''"
      and data = "?data" and ctx = "?ctx" and now = 2000 and issued = 1000
      and rnd = example_random and base = "''http://x/y''" and options = "?options"
      and signedUrl = "''http://x/y?expires=1700000000000&ip=&method=GET&r=AQIDBAUGBwgJCgsMDQ4PEA&sig=034b''"]
    example_get_extract example_get_sign example_get_parses example_digest_ok
    example_url_signable o i e t
  show ?thesis
    by (simp add: ip_binding_fails_def expiry_passed_def digest_comparison_def example_get_digest)
qed

subsection \<open>Digest derivation\<close>

text \<open>
  C6. On the named-algorithm path, with a key present and a supported algorithm, the
  digest of a message is the HMAC, under that algorithm and key, of the message
  followed by the key, written in lowercase hexadecimal. There is a digest whenever
  \<^verbatim>\<open>createHmac\<close> accepts the algorithm; when it does not, its error is the result.
\<close>

theorem generateSignature_hmac_of_data_then_key:
  assumes "key this = Some k" and "k \<noteq> []" and "alg \<in> set (getHashes rt)"
  shows "generateSignature rt this data alg
           = (if createHmac_accepts rt alg
              then Inr (hex_of_bytes (hmac rt alg k (data @ k)))
              else Inl Error_createHmac)
         \<and> (\<forall>c \<in> set (hex_of_bytes (hmac rt alg k (data @ k))). c \<in> set ''0123456789abcdef'')"
  using assms
  by (auto simp: generateSignature_def isProvidedKey_def truthy_def isValidAlgorithm_def
      digest_hex_def update_def createHmac_def dest: hex_of_bytes_chars simp del: set_simps list.set)

theorem generateSignature_hmac_of_data_then_key_witness:
  "key example_signer = Some ''abc'' \<and> ''abc'' \<noteq> [] \<and> ''sha256'' \<in> set (getHashes example_runtime)
   \<and> createHmac_accepts example_runtime ''sha256''
   \<and> generateSignature example_runtime example_signer ''http://x/y'' ''sha256''
       = Inr (hex_of_bytes (hmac example_runtime ''sha256'' ''abc'' (''http://x/y'' @ ''abc'')))
   \<and> generateSignature example_runtime example_signer ''http://x/y'' ''sha256'' = Inr ''030d''"
proof -
  have k: "key example_signer = Some ''abc''"
    by (simp add: example_signer_def SignUrl_new_def)
  have a: "''sha256'' \<in> set (getHashes example_runtime)"
    by (simp add: example_runtime_def)
  have c: "createHmac_accepts example_runtime ''sha256''"
    by (simp add: example_runtime_def)
  have v: "hex_of_bytes (hmac example_runtime ''sha256'' ''abc'' (''http://x/y'' @ ''abc'')) = ''030d''"
    by (simp add: example_runtime_def hex_of_bytes_def hex_digit_def)
  from generateSignature_hmac_of_data_then_key [OF k _ a, of "''http://x/y''"] k a c v
  show ?thesis
    by simp
qed

subsection \<open>Serialization and wire format\<close>

text \<open>
  C7. \<^verbatim>\<open>sign\<close> appends to the URL, after \<^verbatim>\<open>?\<close> when the URL has no \<^verbatim>\<open>?\<close> and
  after \<^verbatim>\<open>&\<close> otherwise, the attributes \<^verbatim>\<open>expires\<close>, \<^verbatim>\<open>ip\<close>, \<^verbatim>\<open>method\<close>, \<^verbatim>\<open>r\<close> in
  this order, each absent attribute as the empty text, and then \<^verbatim>\<open>&sig=\<close> and the
  digest of all that precedes it. With the key \<^verbatim>\<open>abc\<close>, no default time to live and
  a runtime that knows \<^verbatim>\<open>sha256\<close>, signing \<^verbatim>\<open>http://x/y\<close> with the method \<^verbatim>\<open>GET\<close>
  and the expiry 1700000000000 gives
  \<^verbatim>\<open>http://x/y?expires=1700000000000&ip=&method=GET&r=\<close>, the nonce, \<^verbatim>\<open>&sig=\<close> and
  the hexadecimal digest (or the error of \<^verbatim>\<open>createHmac\<close>, on a runtime whose
  \<^verbatim>\<open>createHmac\<close> does not accept \<^verbatim>\<open>sha256\<close>).
\<close>

theorem sign_wire_format:
  "sign_payload url (sign_signatureData this now rnd options)
     = url @ (if CHR ''?'' \<in> set url then ''&'' else ''?'')
         @ ''expires=''
         @ (case SignatureData.expires (sign_signatureData this now rnd options) of
              None \<Rightarrow> [] | Some e \<Rightarrow> if e = 0 then [] else Number_toString e)
         @ ''&ip='' @ (case SignOptions.ipAddress options of None \<Rightarrow> [] | Some i \<Rightarrow> i)
         @ ''&method=''
         @ (case SignOptions.method options of
              None \<Rightarrow> []
            | Some (Method m) \<Rightarrow> toUpperCase m
            | Some (Methods ms) \<Rightarrow> toUpperCase (join '','' ms))
         @ ''&r='' @ base64url rnd
   \<and> sign rt this now rnd url options
     = (case hash_call rt this (sign_payload url (sign_signatureData this now rnd options)) of
          Inl e \<Rightarrow> Inl e
        | Inr d \<Rightarrow> Inr (sign_payload url (sign_signatureData this now rnd options) @ ''&sig='' @ d))
   \<and> (''sha256'' \<in> set (getHashes rt)
      \<longrightarrow> sign rt
            (SignUrl_new \<lparr>SignatureOptions.key = Some ''abc'', SignatureOptions.ttl = Some 0,
                         SignatureOptions.hash = None\<rparr>)
            now rnd ''http://x/y''
            \<lparr>SignOptions.method = Some (Method ''GET''), ttl = None,
             expires = Some 1700000000000, ipAddress = None\<rparr>
          = (if createHmac_accepts rt ''sha256''
             then Inr (''http://x/y?expires=1700000000000&ip=&method=GET&r='' @ base64url rnd
                   @ ''&sig=''
                   @ hex_of_bytes (hmac rt ''sha256'' ''abc''
                       (''http://x/y?expires=1700000000000&ip=&method=GET&r='' @ base64url rnd
                          @ ''abc'')))
             else Inl Error_createHmac))"
proof (intro conjI impI)
  have p: "(if indexOf url ''?'' = - 1 then ''?'' else ''&'')
             = (if CHR ''?'' \<in> set url then ''&'' else ''?'')"
    by (simp add: indexOf_char_absent)
  have e: "expires_or_empty x = (case x of None \<Rightarrow> [] | Some e \<Rightarrow> if e = 0 then [] else Number_toString e)"
    for x
    by (simp add: expires_or_empty_def)
  have i: "string_or_empty (SignatureData.ipAddress (sign_signatureData this now rnd options))
             = (case SignOptions.ipAddress options of None \<Rightarrow> [] | Some i \<Rightarrow> i)"
    unfolding ipAddress_signed by (simp add: string_or_empty_def)
  have r: "r (sign_signatureData this now rnd options) = base64url rnd"
    by (simp add: sign_signatureData_def)
  show "sign_payload url (sign_signatureData this now rnd options)
     = url @ (if CHR ''?'' \<in> set url then ''&'' else ''?'')
         @ ''expires=''
         @ (case SignatureData.expires (sign_signatureData this now rnd options) of
              None \<Rightarrow> [] | Some e \<Rightarrow> if e = 0 then [] else Number_toString e)
         @ ''&ip='' @ (case SignOptions.ipAddress options of None \<Rightarrow> [] | Some i \<Rightarrow> i)
         @ ''&method=''
         @ (case SignOptions.method options of
              None \<Rightarrow> []
            | Some (Method m) \<Rightarrow> toUpperCase m
            | Some (Methods ms) \<Rightarrow> toUpperCase (join '','' ms))
         @ ''&r='' @ base64url rnd"
    unfolding sign_payload_def Let_def p e i r method_signed ..
next
  show "sign rt this now rnd url options
     = (case hash_call rt this (sign_payload url (sign_signatureData this now rnd options)) of
          Inl e \<Rightarrow> Inl e
        | Inr d \<Rightarrow> Inr (sign_payload url (sign_signatureData this now rnd options) @ ''&sig='' @ d))"
    by (simp add: sign_def Let_def)
next
  assume a: "''sha256'' \<in> set (getHashes rt)"
  define this where "this = SignUrl_new \<lparr>SignatureOptions.key = Some ''abc'',
      SignatureOptions.ttl = Some 0, SignatureOptions.hash = None\<rparr>"
  define options where "options = \<lparr>SignOptions.method = Some (Method ''GET''), ttl = None,
      expires = Some 1700000000000, ipAddress = None\<rparr>"
  have k: "key this = Some ''abc''" "hash this = HashName ''sha256''" "ttl this = 0"
    by (simp_all add: this_def SignUrl_new_def)
  have w: "sign_payload ''http://x/y'' (sign_signatureData this now rnd options)
      = ''http://x/y?expires=1700000000000&ip=&method=GET&r='' @ base64url rnd"
    by (simp add: sign_payload_def sign_signatureData_def k options_def indexOf_def startsWith_def
        expires_or_empty_def string_or_empty_def truthy_def toUpperCase_def toUpperCase_char_def
        Number_toString_def digits_of.simps digit_char_def)
  have "hash_call rt this data
      = (if createHmac_accepts rt ''sha256''
         then Inr (hex_of_bytes (hmac rt ''sha256'' ''abc'' (data @ ''abc'')))
         else Inl Error_createHmac)"
    for data
    using a
    by (simp add: hash_call_def k generateSignature_def isProvidedKey_def truthy_def
        isValidAlgorithm_def digest_hex_def update_def createHmac_def)
  then show "sign rt this now rnd ''http://x/y'' options
      = (if createHmac_accepts rt ''sha256''
         then Inr (''http://x/y?expires=1700000000000&ip=&method=GET&r='' @ base64url rnd
               @ ''&sig=''
               @ hex_of_bytes (hmac rt ''sha256'' ''abc''
                   (''http://x/y?expires=1700000000000&ip=&method=GET&r='' @ base64url rnd
                      @ ''abc'')))
         else Inl Error_createHmac)"
    unfolding sign_def Let_def w by simp
qed

theorem sign_wire_format_witness:
  "''sha256'' \<in> set (getHashes example_runtime)
   \<and> createHmac_accepts example_runtime ''sha256''
   \<and> sign example_runtime
       (SignUrl_new \<lparr>SignatureOptions.key = Some ''abc'', SignatureOptions.ttl = Some 0,
                    SignatureOptions.hash = None\<rparr>)
       1000 example_random ''http://x/y''
       \<lparr>SignOptions.method = Some (Method ''GET''), ttl = None,
        expires = Some 1700000000000, ipAddress = None\<rparr>
     = Inr ''http://x/y?expires=1700000000000&ip=&method=GET&r=AQIDBAUGBwgJCgsMDQ4PEA&sig=034b''"
proof -
  have a: "''sha256'' \<in> set (getHashes example_runtime)"
    by (simp add: example_runtime_def)
  have r: "base64url example_random = ''AQIDBAUGBwgJCgsMDQ4PEA''"
    by (simp add: example_random_def base64url_char_def base64url_alphabet_def)
  from sign_wire_format [where rt = example_runtime and now = 1000 and rnd = example_random,
      THEN conjunct2, THEN conjunct2, THEN mp, OF a]
  show ?thesis
    by (simp add: r example_runtime_def hex_of_bytes_def hex_digit_def)
qed

subsection \<open>Expiry resolution\<close>

text \<open>
  C8. The expiry that \<^verbatim>\<open>sign\<close> resolves: with a non-zero time to live of the
  instance, now plus that many minutes, whatever the options say; otherwise, with a
  non-zero time to live in the options, now plus that many minutes; otherwise, with a
  non-zero expiry in the options, that expiry as it is; otherwise none. In the first
  two cases the sum has to be a time that a date can hold, at most
  \<open>8.64 \<times> 10\<^sup>1\<^sup>5\<close> milliseconds from the epoch; for a sum beyond, the value of the date
  is \<^verbatim>\<open>NaN\<close> and no expiry is written.

  A time to live of zero in the options counts as not given, like the zero of the
  instance: with \<^verbatim>\<open>{ttl: 0, expires: 1700000000000}\<close> the expiry is 1700000000000 and
  not now. And with a time to live of 200000000000 minutes the instance signs without
  an expiry. The third theorem below computes both.
\<close>

theorem expiry_resolution:
  "(ttl this \<noteq> 0 \<and> \<bar>now + ttl this * 60000\<bar> \<le> 8640000000000000
      \<longrightarrow> SignatureData.expires (sign_signatureData this now rnd options)
            = Some (now + ttl this * 60000))
   \<and> (ttl this = 0 \<and> SignOptions.ttl options = Some t \<and> t \<noteq> 0
        \<and> \<bar>now + t * 60000\<bar> \<le> 8640000000000000
      \<longrightarrow> SignatureData.expires (sign_signatureData this now rnd options)
            = Some (now + t * 60000))
   \<and> (ttl this = 0 \<and> (SignOptions.ttl options = None \<or> SignOptions.ttl options = Some 0)
        \<and> SignOptions.expires options = Some e \<and> e \<noteq> 0
      \<longrightarrow> SignatureData.expires (sign_signatureData this now rnd options) = Some e)
   \<and> (ttl this = 0 \<and> (SignOptions.ttl options = None \<or> SignOptions.ttl options = Some 0)
        \<and> (SignOptions.expires options = None \<or> SignOptions.expires options = Some 0)
      \<longrightarrow> SignatureData.expires (sign_signatureData this now rnd options) = None)
   \<and> (ttl this \<noteq> 0 \<and> 8640000000000000 < \<bar>now + ttl this * 60000\<bar>
      \<longrightarrow> SignatureData.expires (sign_signatureData this now rnd options) = None)
   \<and> (ttl this = 0 \<and> SignOptions.ttl options = Some t \<and> t \<noteq> 0
        \<and> 8640000000000000 < \<bar>now + t * 60000\<bar>
      \<longrightarrow> SignatureData.expires (sign_signatureData this now rnd options) = None)"
  by (auto simp: sign_signatureData_def dayjs_add_minutes_def Date_valueOf_def)

theorem expiry_resolution_witness:
  "SignatureData.expires (sign_signatureData
       (SignUrl_new \<lparr>SignatureOptions.key = Some ''abc'', SignatureOptions.ttl = None,
                    SignatureOptions.hash = None\<rparr>)
       1000 example_random
       \<lparr>SignOptions.method = None, ttl = Some 5, expires = Some 77, ipAddress = None\<rparr>)
     = Some 1801000
   \<and> SignatureData.expires (sign_signatureData example_signer 1000 example_random
       \<lparr>SignOptions.method = None, ttl = Some 5, expires = Some 77, ipAddress = None\<rparr>)
     = Some 301000
   \<and> SignatureData.expires (sign_signatureData example_signer 1000 example_random
       \<lparr>SignOptions.method = None, ttl = None, expires = Some 77, ipAddress = None\<rparr>)
     = Some 77
   \<and> SignatureData.expires (sign_signatureData example_signer 1000 example_random
       \<lparr>SignOptions.method = None, ttl = None, expires = None, ipAddress = None\<rparr>)
     = None
   \<and> SignatureData.expires (sign_signatureData
       (SignUrl_new \<lparr>SignatureOptions.key = Some ''abc'',
                    SignatureOptions.ttl = Some 200000000000, SignatureOptions.hash = None\<rparr>)
       1000 example_random
       \<lparr>SignOptions.method = None, ttl = Some 5, expires = Some 77, ipAddress = None\<rparr>)
     = None
   \<and> SignatureData.expires (sign_signatureData example_signer 1000 example_random
       \<lparr>SignOptions.method = None, ttl = Some 200000000000, expires = Some 77,
        ipAddress = None\<rparr>)
     = None"
proof -
  have d: "ttl (SignUrl_new \<lparr>SignatureOptions.key = Some ''abc'', SignatureOptions.ttl = None,
                    SignatureOptions.hash = None\<rparr>) = 30"
    and h: "ttl (SignUrl_new \<lparr>SignatureOptions.key = Some ''abc'',
                    SignatureOptions.ttl = Some 200000000000, SignatureOptions.hash = None\<rparr>)
              = 200000000000"
    and z: "ttl example_signer = 0"
    by (simp_all add: SignUrl_new_def example_signer_def)
  from expiry_resolution [of "SignUrl_new \<lparr>SignatureOptions.key = Some ''abc'',
        SignatureOptions.ttl = None, SignatureOptions.hash = None\<rparr>" 1000 example_random
      "\<lparr>SignOptions.method = None, ttl = Some 5, expires = Some 77, ipAddress = None\<rparr>" 5 77]
    expiry_resolution [of example_signer 1000 example_random
      "\<lparr>SignOptions.method = None, ttl = Some 5, expires = Some 77, ipAddress = None\<rparr>" 5 77]
    expiry_resolution [of example_signer 1000 example_random
      "\<lparr>SignOptions.method = None, ttl = None, expires = Some 77, ipAddress = None\<rparr>" 5 77]
    expiry_resolution [of example_signer 1000 example_random
      "\<lparr>SignOptions.method = None, ttl = None, expires = None, ipAddress = None\<rparr>" 5 77]
    expiry_resolution [of "SignUrl_new \<lparr>SignatureOptions.key = Some ''abc'',
        SignatureOptions.ttl = Some 200000000000, SignatureOptions.hash = None\<rparr>" 1000
      example_random
      "\<lparr>SignOptions.method = None, ttl = Some 5, expires = Some 77, ipAddress = None\<rparr>" 5 77]
    expiry_resolution [of example_signer 1000 example_random
      "\<lparr>SignOptions.method = None, ttl = Some 200000000000, expires = Some 77,
        ipAddress = None\<rparr>" 200000000000 77]
    d h z
  show ?thesis
    by simp
qed

theorem expiry_resolution_counterexample:
  "ttl example_signer = 0
   \<and> SignOptions.ttl \<lparr>SignOptions.method = None, ttl = Some 0, expires = Some 1700000000000,
        ipAddress = None\<rparr> = Some 0
   \<and> SignatureData.expires (sign_signatureData example_signer 1000 example_random
       \<lparr>SignOptions.method = None, ttl = Some 0, expires = Some 1700000000000,
        ipAddress = None\<rparr>)
     = Some 1700000000000
   \<and> SignatureData.expires (sign_signatureData example_signer 1000 example_random
       \<lparr>SignOptions.method = None, ttl = Some 0, expires = Some 1700000000000,
        ipAddress = None\<rparr>)
     \<noteq> Some (1000 + 0 * 60000)
   \<and> ttl (SignUrl_new \<lparr>SignatureOptions.key = Some ''abc'',
             SignatureOptions.ttl = Some 200000000000, SignatureOptions.hash = None\<rparr>)
     = 200000000000
   \<and> SignatureData.expires (sign_signatureData
       (SignUrl_new \<lparr>SignatureOptions.key = Some ''abc'',
                    SignatureOptions.ttl = Some 200000000000, SignatureOptions.hash = None\<rparr>)
       1000 example_random
       \<lparr>SignOptions.method = None, ttl = None, expires = None, ipAddress = None\<rparr>)
     = None
   \<and> SignatureData.expires (sign_signatureData
       (SignUrl_new \<lparr>SignatureOptions.key = Some ''abc'',
                    SignatureOptions.ttl = Some 200000000000, SignatureOptions.hash = None\<rparr>)
       1000 example_random
       \<lparr>SignOptions.method = None, ttl = None, expires = None, ipAddress = None\<rparr>)
     \<noteq> Some (1000 + 200000000000 * 60000)"
  by (simp add: sign_signatureData_def dayjs_add_minutes_def Date_valueOf_def example_signer_def
      SignUrl_new_def)

subsection \<open>Errors of sign\<close>

text \<open>
  C9. With a named algorithm, \<^verbatim>\<open>sign\<close> raises the missing-key error exactly when
  the key is absent or empty, raises the unsupported-algorithm error exactly when the
  key is present and the algorithm is not among those the runtime lists, and
  otherwise returns a text when \<^verbatim>\<open>createHmac\<close> accepts the algorithm, and raises the
  error of \<^verbatim>\<open>createHmac\<close> when it does not. It never fails on the shape of the URL or
  of the options.

  The key is tested first: with no key and the unknown algorithm \<^verbatim>\<open>md999\<close> the error
  is the missing-key error. And a listed algorithm need not be one that
  \<^verbatim>\<open>createHmac\<close> accepts: with the key \<^verbatim>\<open>abc\<close> and the algorithm \<^verbatim>\<open>shake128\<close>, which
  the example runtime lists like Node.js does, \<^verbatim>\<open>sign\<close> raises the error of
  \<^verbatim>\<open>createHmac\<close>. The third theorem below computes both.
\<close>

theorem sign_errors:
  assumes "hash this = HashName alg"
  shows "(sign rt this now rnd url options = Inl NotProvideKeyError
            \<longleftrightarrow> key this = None \<or> key this = Some [])
         \<and> (sign rt this now rnd url options = Inl NotSupportedAlgorithmError
            \<longleftrightarrow> \<not> (key this = None \<or> key this = Some []) \<and> alg \<notin> set (getHashes rt))
         \<and> (\<not> (key this = None \<or> key this = Some []) \<and> alg \<in> set (getHashes rt)
              \<and> createHmac_accepts rt alg
            \<longrightarrow> (\<exists>signedUrl. sign rt this now rnd url options = Inr signedUrl))
         \<and> (\<not> (key this = None \<or> key this = Some []) \<and> alg \<in> set (getHashes rt)
              \<and> \<not> createHmac_accepts rt alg
            \<longrightarrow> sign rt this now rnd url options = Inl Error_createHmac)"
proof -
  have "hash_call rt this data =
      (if key this = None \<or> key this = Some [] then Inl NotProvideKeyError
       else if alg \<notin> set (getHashes rt) then Inl NotSupportedAlgorithmError
       else if \<not> createHmac_accepts rt alg then Inl Error_createHmac
       else Inr (hex_of_bytes (hmac rt alg (the (key this)) (data @ the (key this)))))"
    for data
    using assms
    by (auto simp: hash_call_def generateSignature_def isProvidedKey_def truthy_def
        isValidAlgorithm_def createHmac_def digest_hex_def update_def split: option.splits)
  then show ?thesis
    by (simp add: sign_def Let_def)
qed

theorem sign_errors_witness:
  "hash example_signer = HashName ''sha256''
   \<and> \<not> (key example_signer = None \<or> key example_signer = Some [])
   \<and> ''sha256'' \<in> set (getHashes example_runtime)
   \<and> createHmac_accepts example_runtime ''sha256''
   \<and> sign example_runtime example_signer 1000 example_random ''http://x/y''
       \<lparr>SignOptions.method = Some (Method ''GET''), ttl = None,
        expires = Some 1700000000000, ipAddress = None\<rparr> \<noteq> Inl NotProvideKeyError
   \<and> sign example_runtime example_signer 1000 example_random ''http://x/y''
       \<lparr>SignOptions.method = Some (Method ''GET''), ttl = None,
        expires = Some 1700000000000, ipAddress = None\<rparr> \<noteq> Inl NotSupportedAlgorithmError
   \<and> (\<exists>signedUrl. sign example_runtime example_signer 1000 example_random ''http://x/y''
       \<lparr>SignOptions.method = Some (Method ''GET''), ttl = None,
        expires = Some 1700000000000, ipAddress = None\<rparr> = Inr signedUrl)
   \<and> hash (SignUrl_new \<lparr>SignatureOptions.key = Some ''abc'', SignatureOptions.ttl = None,
                    SignatureOptions.hash = Some (HashName ''shake128'')\<rparr>)
     = HashName ''shake128''
   \<and> ''shake128'' \<in> set (getHashes example_runtime)
   \<and> \<not> createHmac_accepts example_runtime ''shake128''
   \<and> sign example_runtime
       (SignUrl_new \<lparr>SignatureOptions.key = Some ''abc'', SignatureOptions.ttl = None,
                    SignatureOptions.hash = Some (HashName ''shake128'')\<rparr>)
       1000 example_random ''http://x/y''
       \<lparr>SignOptions.method = None, ttl = None, expires = None, ipAddress = None\<rparr>
     = Inl Error_createHmac"
proof -
  let ?shake = "SignUrl_new \<lparr>SignatureOptions.key = Some ''abc'', SignatureOptions.ttl = None,
                    SignatureOptions.hash = Some (HashName ''shake128'')\<rparr>"
  have h: "hash example_signer = HashName ''sha256''"
    and k: "\<not> (key example_signer = None \<or> key example_signer = Some [])"
    and h': "hash ?shake = HashName ''shake128''"
    and k': "\<not> (key ?shake = None \<or> key ?shake = Some [])"
    by (simp_all add: example_signer_def SignUrl_new_def)
  have a: "''sha256'' \<in> set (getHashes example_runtime)"
    "createHmac_accepts example_runtime ''sha256''"
    "''shake128'' \<in> set (getHashes example_runtime)"
    "\<not> createHmac_accepts example_runtime ''shake128''"
    by (simp_all add: example_runtime_def)
  from sign_errors [OF h, of example_runtime 1000 example_random "''http://x/y''"
      "\<lparr>SignOptions.method = Some (Method ''GET''), ttl = None,
        expires = Some 1700000000000, ipAddress = None\<rparr>"]
    sign_errors [OF h', of example_runtime 1000 example_random "''http://x/y''"
      "\<lparr>SignOptions.method = None, ttl = None, expires = None, ipAddress = None\<rparr>"]
    h k h' k' a
  show ?thesis
    by simp
qed

theorem sign_errors_counterexample:
  "''md999'' \<notin> set (getHashes example_runtime)
   \<and> sign example_runtime
       (SignUrl_new \<lparr>SignatureOptions.key = None, SignatureOptions.ttl = None,
                    SignatureOptions.hash = Some (HashName ''md999'')\<rparr>)
       1000 example_random ''http://x/y''
       \<lparr>SignOptions.method = None, ttl = None, expires = None, ipAddress = None\<rparr>
     = Inl NotProvideKeyError
   \<and> sign example_runtime
       (SignUrl_new \<lparr>SignatureOptions.key = None, SignatureOptions.ttl = None,
                    SignatureOptions.hash = Some (HashName ''md999'')\<rparr>)
       1000 example_random ''http://x/y''
       \<lparr>SignOptions.method = None, ttl = None, expires = None, ipAddress = None\<rparr>
     \<noteq> Inl NotSupportedAlgorithmError
   \<and> key (SignUrl_new \<lparr>SignatureOptions.key = Some ''abc'', SignatureOptions.ttl = None,
                    SignatureOptions.hash = Some (HashName ''shake128'')\<rparr>) = Some ''abc''
   \<and> ''shake128'' \<in> set (getHashes example_runtime)
   \<and> sign example_runtime
       (SignUrl_new \<lparr>SignatureOptions.key = Some ''abc'', SignatureOptions.ttl = None,
                    SignatureOptions.hash = Some (HashName ''shake128'')\<rparr>)
       1000 example_random ''http://x/y''
       \<lparr>SignOptions.method = None, ttl = None, expires = None, ipAddress = None\<rparr>
     = Inl Error_createHmac"
  by (simp add: sign_def hash_call_def generateSignature_def isProvidedKey_def truthy_def
      isValidAlgorithm_def createHmac_def SignUrl_new_def example_runtime_def)

subsection \<open>The method check searches a substring\<close>

text \<open>
  C10. The method check fails exactly when the context method is not empty and its
  upper-cased form occurs nowhere in the allowed text: it is a substring search. A
  URL signed with the one method \<^verbatim>\<open>WIDGET\<close> therefore verifies in a context with the
  method \<^verbatim>\<open>GET\<close>, which is not the signed method.
\<close>

theorem method_check_is_substring_search:
  "(strict_equals (method_operand allowed (Some cm)) (JNumber (- 1))
      \<longleftrightarrow> cm \<noteq> [] \<and> \<not> (\<exists>a b. allowed = a @ toUpperCase cm @ b))
   \<and> (sign rt this now rnd url options = Inr signedUrl
      \<and> URL_parses rt signedUrl
      \<and> digest_ok rt this (sign_payload url (sign_signatureData this now rnd options))
      \<and> signable_url url \<and> signable_options options
      \<and> SignOptions.method options = Some (Method ''WIDGET'')
      \<and> VerifyOptions.method ctx = Some ''GET''
      \<and> ip_matches options ctx
      \<and> not_expired (sign_signatureData this now rnd options) now'
    \<longrightarrow> ''GET'' \<noteq> ''WIDGET'' \<and> verify rt this now' signedUrl ctx = Inr True)"
proof (intro conjI impI)
  show "strict_equals (method_operand allowed (Some cm)) (JNumber (- 1))
      \<longleftrightarrow> cm \<noteq> [] \<and> \<not> (\<exists>a b. allowed = a @ toUpperCase cm @ b)"
    by (auto simp: method_operand_def truthy_def indexOf_absent)
next
  show "''GET'' \<noteq> ''WIDGET''"
    by simp
next
  assume b: "sign rt this now rnd url options = Inr signedUrl
      \<and> URL_parses rt signedUrl
      \<and> digest_ok rt this (sign_payload url (sign_signatureData this now rnd options))
      \<and> signable_url url \<and> signable_options options
      \<and> SignOptions.method options = Some (Method ''WIDGET'')
      \<and> VerifyOptions.method ctx = Some ''GET''
      \<and> ip_matches options ctx
      \<and> not_expired (sign_signatureData this now rnd options) now'"
  then have s: "sign rt this now rnd url options = Inr signedUrl"
    "URL_parses rt signedUrl"
    "digest_ok rt this (sign_payload url (sign_signatureData this now rnd options))"
    "signable_url url" "signable_options options"
    and c: "ip_matches options ctx" "not_expired (sign_signatureData this now rnd options) now'"
    and m: "SignOptions.method options = Some (Method ''WIDGET'')"
    "VerifyOptions.method ctx = Some ''GET''"
    by simp_all
  have "verify rt this now' signedUrl ctx
      = (if indexOf (toUpperCase ''WIDGET'') (toUpperCase ''GET'') = - 1
         then Inl BlackholedSignatureError else Inr True)"
    by (rule verify_sign_method [OF s c m]) simp_all
  moreover have "indexOf (toUpperCase ''WIDGET'') (toUpperCase ''GET'') = 3"
    by (simp add: indexOf_def startsWith_def toUpperCase_def toUpperCase_char_def)
  ultimately show "verify rt this now' signedUrl ctx = Inr True"
    by simp
qed

theorem method_check_is_substring_search_witness:
  "sign example_runtime example_signer 1000 example_random ''http://x/y''
     \<lparr>SignOptions.method = Some (Method ''WIDGET''), ttl = None, expires = None,
      ipAddress = None\<rparr>
     = Inr ''http://x/y?expires=&ip=&method=WIDGET&r=AQIDBAUGBwgJCgsMDQ4PEA&sig=0341''
   \<and> verify example_runtime example_signer 2000
       ''http://x/y?expires=&ip=&method=WIDGET&r=AQIDBAUGBwgJCgsMDQ4PEA&sig=0341''
       \<lparr>VerifyOptions.method = Some ''GET'', ipAddress = None\<rparr>
     = Inr True"
proof -
  let ?options = "\<lparr>SignOptions.method = Some (Method ''WIDGET''), ttl = None, expires = None,
      ipAddress = None\<rparr>"
  let ?ctx = "\<lparr>VerifyOptions.method = Some ''GET'', ipAddress = None\<rparr>"
  have o: "signable_options ?options"
    by (simp add: signable_options_def query_safe_def string_or_empty_def)
  have i: "ip_matches ?options ?ctx"
    by (simp add: ip_matches_def truthy_def)
  have e: "not_expired (sign_signatureData example_signer 1000 example_random ?options) 2000"
    by (simp add: not_expired_def payload_eval)
  from method_check_is_substring_search [where rt = example_runtime and this = example_signer
      and now = 1000 and rnd = example_random and url = "''http://x/y''" and options = "?options"
      and signedUrl = "''http://x/y?expires=&ip=&method=WIDGET&r=AQIDBAUGBwgJCgsMDQ4PEA&sig=0341''"
      and ctx = "?ctx" and now' = 2000]
    example_widget_sign example_widget_parses example_digest_ok example_url_signable o i e
  show ?thesis
    by simp
qed

end
